theory Spec2Isabelle
  imports Complex_Main "HOL-Library.Word"
begin

unbundle bit_operations_syntax

section \<open>The value model of the JSON library\<close>

text \<open>
  The library under verification is the reduced cJSON shipped with the file agent
  (the C file that includes \<^verbatim>\<open>cJSON.h\<close>). A \<^verbatim>\<open>double\<close> is carried by
  the exact rational it holds, or by one of the three non-finite values.
\<close>

datatype cdouble = Finite rat | PlusInf | MinusInf | NaN

text \<open>
  \<^verbatim>\<open>struct cJSON\<close>. The \<^verbatim>\<open>next\<close>/\<^verbatim>\<open>prev\<close> links of the children
  are the order of the list \<open>child\<close>; a null \<^verbatim>\<open>char *\<close> is \<open>None\<close>.
\<close>

datatype cJSON = Node
  (type: int)
  (valuestring: "string option")
  (valueint: int)
  (valuedouble: cdouble)
  (string: "string option")
  (child: "cJSON list")

definition cJSON_Invalid :: int where "cJSON_Invalid = 0"
definition cJSON_False :: int where "cJSON_False = 1"
definition cJSON_True :: int where "cJSON_True = 2"
definition cJSON_NULL :: int where "cJSON_NULL = 4"
definition cJSON_Number :: int where "cJSON_Number = 8"
definition cJSON_String :: int where "cJSON_String = 16"
definition cJSON_Array :: int where "cJSON_Array = 32"
definition cJSON_Object :: int where "cJSON_Object = 64"
definition cJSON_Raw :: int where "cJSON_Raw = 128"
definition cJSON_IsReference :: int where "cJSON_IsReference = 256"
definition cJSON_StringIsConst :: int where "cJSON_StringIsConst = 512"

subsection \<open>Type checking\<close>

definition cJSON_IsInvalid :: "cJSON option \<Rightarrow> bool" where
  "cJSON_IsInvalid item =
     (case item of None \<Rightarrow> True | Some i \<Rightarrow> type i AND 0xFF = cJSON_Invalid)"

definition cJSON_IsFalse :: "cJSON option \<Rightarrow> bool" where
  "cJSON_IsFalse item =
     (case item of None \<Rightarrow> False | Some i \<Rightarrow> type i AND 0xFF = cJSON_False)"

definition cJSON_IsTrue :: "cJSON option \<Rightarrow> bool" where
  "cJSON_IsTrue item =
     (case item of None \<Rightarrow> False | Some i \<Rightarrow> type i AND 0xFF = cJSON_True)"

definition cJSON_IsBool :: "cJSON option \<Rightarrow> bool" where
  "cJSON_IsBool item =
     (case item of None \<Rightarrow> False
      | Some i \<Rightarrow> type i AND 0xFF = cJSON_True \<or> type i AND 0xFF = cJSON_False)"

definition cJSON_IsNull :: "cJSON option \<Rightarrow> bool" where
  "cJSON_IsNull item =
     (case item of None \<Rightarrow> False | Some i \<Rightarrow> type i AND 0xFF = cJSON_NULL)"

definition cJSON_IsNumber :: "cJSON option \<Rightarrow> bool" where
  "cJSON_IsNumber item =
     (case item of None \<Rightarrow> False | Some i \<Rightarrow> type i AND 0xFF = cJSON_Number)"

definition cJSON_IsString :: "cJSON option \<Rightarrow> bool" where
  "cJSON_IsString item =
     (case item of None \<Rightarrow> False | Some i \<Rightarrow> type i AND 0xFF = cJSON_String)"

definition cJSON_IsArray :: "cJSON option \<Rightarrow> bool" where
  "cJSON_IsArray item =
     (case item of None \<Rightarrow> False | Some i \<Rightarrow> type i AND 0xFF = cJSON_Array)"

definition cJSON_IsObject :: "cJSON option \<Rightarrow> bool" where
  "cJSON_IsObject item =
     (case item of None \<Rightarrow> False | Some i \<Rightarrow> type i AND 0xFF = cJSON_Object)"

definition cJSON_IsRaw :: "cJSON option \<Rightarrow> bool" where
  "cJSON_IsRaw item =
     (case item of None \<Rightarrow> False | Some i \<Rightarrow> type i AND 0xFF = cJSON_Raw)"

section \<open>The C library functions the code calls\<close>

text \<open>
  The library calls \<^verbatim>\<open>strtod\<close>, \<^verbatim>\<open>sprintf\<close> with \<^verbatim>\<open>%d\<close> and \<^verbatim>\<open>%g\<close>,
  \<^verbatim>\<open>strcmp\<close>, \<^verbatim>\<open>strcasecmp\<close> and \<^verbatim>\<open>strncmp\<close>. They belong to the platform,
  not to the repository; the definitions of this section follow ISO C (the "C" locale).
  A pointer into a byte object is the list of the bytes from the pointer to the end of
  the object, so a read through it either yields the head of the list or, on the empty
  list, falls outside the object.
\<close>

abbreviation dquote :: char where "dquote \<equiv> CHR 0x22"
abbreviation bslash :: char where "bslash \<equiv> CHR 0x5C"
abbreviation NUL :: char where "NUL \<equiv> CHR 0x00"

definition c_string :: "char list \<Rightarrow> string" where
  \<comment> \<open>the C string held by a byte array: the bytes before the first NUL\<close>
  "c_string bytes = takeWhile (\<lambda>c. c \<noteq> NUL) bytes"

definition strlen :: "char list \<Rightarrow> nat" where
  "strlen bytes = length (c_string bytes)"

definition isdigit :: "char \<Rightarrow> bool" where
  "isdigit c = (48 \<le> (of_char c :: nat) \<and> (of_char c :: nat) \<le> 57)"

definition isxdigit :: "char \<Rightarrow> bool" where
  "isxdigit c = (isdigit c \<or> (65 \<le> (of_char c :: nat) \<and> (of_char c :: nat) \<le> 70)
                 \<or> (97 \<le> (of_char c :: nat) \<and> (of_char c :: nat) \<le> 102))"

definition isalpha :: "char \<Rightarrow> bool" where
  "isalpha c = ((65 \<le> (of_char c :: nat) \<and> (of_char c :: nat) \<le> 90)
                 \<or> (97 \<le> (of_char c :: nat) \<and> (of_char c :: nat) \<le> 122))"

definition isspace :: "char \<Rightarrow> bool" where
  "isspace c = ((of_char c :: nat) = 32 \<or> (9 \<le> (of_char c :: nat) \<and> (of_char c :: nat) \<le> 13))"

definition tolower :: "char \<Rightarrow> char" where
  "tolower c = (if 65 \<le> (of_char c :: nat) \<and> (of_char c :: nat) \<le> 90
                then char_of ((of_char c :: nat) + 32) else c)"

definition strcmp :: "string \<Rightarrow> string \<Rightarrow> bool" where
  \<comment> \<open>\<^verbatim>\<open>strcmp(a, b) == 0\<close>\<close>
  "strcmp a b = (a = b)"

definition strcasecmp :: "string \<Rightarrow> string \<Rightarrow> bool" where
  \<comment> \<open>\<^verbatim>\<open>strcasecmp(a, b) == 0\<close>\<close>
  "strcasecmp a b = (map tolower a = map tolower b)"

fun strncmp :: "char list \<Rightarrow> string \<Rightarrow> bool option" where
  \<comment> \<open>\<^verbatim>\<open>strncmp(p, lit, strlen(lit)) == 0\<close> for a literal without NUL; \<open>None\<close> when
      the comparison reads outside the object \<open>p\<close> points into\<close>
  "strncmp p [] = Some True"
| "strncmp [] (l # ls) = None"
| "strncmp (c # cs) (l # ls) = (if c = l then strncmp cs ls else Some False)"

subsection \<open>Formatting an int with \<^verbatim>\<open>%d\<close>\<close>

definition digit_char :: "nat \<Rightarrow> char" where
  "digit_char d = ''0123456789'' ! d"

function dec_digits :: "int \<Rightarrow> string" where
  \<comment> \<open>the decimal digits of \<open>n \<ge> 0\<close>\<close>
  "dec_digits n =
     (if n < 10 then [digit_char (nat n)]
      else dec_digits (n div 10) @ [digit_char (nat (n mod 10))])"
  by pat_completeness auto

termination
  by (relation "measure nat") auto

declare dec_digits.simps [simp del]

definition fmt_d :: "int \<Rightarrow> string" where
  "fmt_d i = (if i < 0 then CHR ''-'' # dec_digits (- i) else dec_digits i)"

subsection \<open>Formatting a double with \<^verbatim>\<open>%g\<close>\<close>

definition pow10 :: "int \<Rightarrow> rat" where
  "pow10 e = (if 0 \<le> e then 10 ^ nat e else 1 / 10 ^ nat (- e))"

definition decimal_exponent :: "rat \<Rightarrow> int" where
  \<comment> \<open>for \<open>a > 0\<close>: the \<open>X\<close> with \<open>10 ^ X \<le> a < 10 ^ (X + 1)\<close>\<close>
  "decimal_exponent a =
     (if 1 \<le> a then int (length (dec_digits \<lfloor>a\<rfloor>)) - 1
      else (let n = int (length (dec_digits \<lfloor>1 / a\<rfloor>))
            in if a * pow10 (n - 1) = 1 then - (n - 1) else - n))"

definition round_half_even :: "rat \<Rightarrow> int" where
  "round_half_even r =
     (let f = \<lfloor>r\<rfloor>; d = r - of_int f
      in if d < 1 / 2 then f else if 1 / 2 < d then f + 1 else if even f then f else f + 1)"

definition strip_zeros :: "string \<Rightarrow> string" where
  \<comment> \<open>remove the trailing zeros of a fraction\<close>
  "strip_zeros ds = rev (dropWhile (\<lambda>c. c = CHR ''0'') (rev ds))"

definition fmt_exponent :: "int \<Rightarrow> string" where
  \<comment> \<open>\<^verbatim>\<open>e+XX\<close>: a sign and at least two digits\<close>
  "fmt_exponent x =
     CHR ''e'' # (if x < 0 then CHR ''-'' else CHR ''+'') #
       (if \<bar>x\<bar> < 10 then CHR ''0'' # dec_digits \<bar>x\<bar> else dec_digits \<bar>x\<bar>)"

definition fmt_g_pos :: "rat \<Rightarrow> string" where
  \<comment> \<open>\<^verbatim>\<open>%g\<close> of \<open>a > 0\<close>: six significant digits, style e when the exponent is below
      \<open>-4\<close> or at least \<open>6\<close>, trailing zeros removed\<close>
  "fmt_g_pos a =
     (let x0 = decimal_exponent a;
          m0 = round_half_even (a * pow10 (5 - x0));
          m = (if m0 = 1000000 then 100000 else m0);
          x = (if m0 = 1000000 then x0 + 1 else x0);
          ds = dec_digits m
      in if - 4 \<le> x \<and> x < 6 then
           (if 0 \<le> x then
              (let frac = strip_zeros (drop (nat x + 1) ds)
               in take (nat x + 1) ds @ (if frac = [] then [] else CHR ''.'' # frac))
            else ''0.'' @ replicate (nat (- x - 1)) CHR ''0'' @ strip_zeros ds)
         else
           (let frac = strip_zeros (drop 1 ds)
            in take 1 ds @ (if frac = [] then [] else CHR ''.'' # frac) @ fmt_exponent x))"

definition fmt_g :: "rat \<Rightarrow> string" where
  "fmt_g q = (if q = 0 then ''0'' else if q < 0 then CHR ''-'' # fmt_g_pos (- q) else fmt_g_pos q)"

subsection \<open>Conversions between double and int\<close>

definition INT_MIN :: int where "INT_MIN = - 2147483648"
definition INT_MAX :: int where "INT_MAX = 2147483647"

definition trunc_zero :: "rat \<Rightarrow> int" where
  \<comment> \<open>rounding towards zero\<close>
  "trunc_zero q = (if 0 \<le> q then \<lfloor>q\<rfloor> else - \<lfloor>- q\<rfloor>)"

definition double_to_int :: "cdouble \<Rightarrow> int" where
  \<comment> \<open>\<^verbatim>\<open>(int)d\<close>. ISO C leaves the conversion undefined when the truncated value is not an
      int; the value taken here for that case is the one of x86-64 (\<^verbatim>\<open>cvttsd2si\<close>).\<close>
  "double_to_int d =
     (case d of
        Finite q \<Rightarrow>
          (if INT_MIN \<le> trunc_zero q \<and> trunc_zero q \<le> INT_MAX then trunc_zero q
           else INT_MIN)
      | _ \<Rightarrow> INT_MIN)"

definition int_to_double :: "int \<Rightarrow> cdouble" where
  \<comment> \<open>\<^verbatim>\<open>(double)i\<close>, exact for every int\<close>
  "int_to_double i = Finite (of_int i)"

definition isnan :: "cdouble \<Rightarrow> bool" where
  "isnan d = (d = NaN)"

definition isinf :: "cdouble \<Rightarrow> bool" where
  "isinf d = (d = PlusInf \<or> d = MinusInf)"

definition double_eq :: "cdouble \<Rightarrow> cdouble \<Rightarrow> bool" where
  \<comment> \<open>the C operator \<^verbatim>\<open>==\<close> on doubles: a NaN equals nothing\<close>
  "double_eq a b = (a \<noteq> NaN \<and> b \<noteq> NaN \<and> a = b)"

subsection \<open>Scanning a double with \<^verbatim>\<open>strtod\<close>\<close>

text \<open>
  \<^verbatim>\<open>strtod\<close> converts the longest prefix that has the form of a number: white space,
  a sign, then a decimal or hexadecimal floating constant, \<^verbatim>\<open>inf\<close>, \<^verbatim>\<open>infinity\<close>,
  \<^verbatim>\<open>nan\<close> or \<^verbatim>\<open>nan(...)\<close>. It has to read the byte that ends the number, so on a
  buffer that stops inside a number it reads outside the object (\<open>None\<close>). The value is
  the exact rational of the text; the rounding to 53 bits is not part of the model, only
  the overflow to an infinity is. The second component is the number of bytes converted
  (\<^verbatim>\<open>end - start\<close>), 0 when there is no conversion.
\<close>

fun scan_while :: "(char \<Rightarrow> bool) \<Rightarrow> char list \<Rightarrow> (char list \<times> char list) option" where
  "scan_while P [] = None"
| "scan_while P (c # cs) =
     (if P c then (case scan_while P cs of None \<Rightarrow> None | Some (a, r) \<Rightarrow> Some (c # a, r))
      else Some ([], c # cs))"

definition digit_val :: "char \<Rightarrow> nat" where
  "digit_val c = (of_char c :: nat) - 48"

definition xdigit_val :: "char \<Rightarrow> nat" where
  "xdigit_val c =
     (if isdigit c then (of_char c :: nat) - 48
      else if 97 \<le> (of_char c :: nat) then (of_char c :: nat) - 87 else (of_char c :: nat) - 55)"

definition dec_value :: "string \<Rightarrow> nat" where
  "dec_value ds = foldl (\<lambda>a c. 10 * a + digit_val c) 0 ds"

definition hex_value :: "string \<Rightarrow> nat" where
  "hex_value ds = foldl (\<lambda>a c. 16 * a + xdigit_val c) 0 ds"

definition pow2 :: "int \<Rightarrow> rat" where
  "pow2 e = (if 0 \<le> e then 2 ^ nat e else 1 / 2 ^ nat (- e))"

definition scan_mantissa ::
  "(char \<Rightarrow> bool) \<Rightarrow> char list \<Rightarrow> (string \<times> string \<times> nat \<times> char list) option" where
  \<comment> \<open>the digits before and after the radix character, the bytes they take, and the rest\<close>
  "scan_mantissa P s =
     (case scan_while P s of
        None \<Rightarrow> None
      | Some (ip, r1) \<Rightarrow>
          (case r1 of
             [] \<Rightarrow> None
           | c # r1' \<Rightarrow>
               if c = CHR ''.'' then
                 (case scan_while P r1' of
                    None \<Rightarrow> None
                  | Some (fp, r2) \<Rightarrow> Some (ip, fp, length ip + 1 + length fp, r2))
               else Some (ip, [], length ip, r1)))"

definition scan_exponent :: "char \<Rightarrow> char list \<Rightarrow> (int \<times> nat) option" where
  \<comment> \<open>the optional exponent part after the marker \<open>m\<close> (\<^verbatim>\<open>e\<close> or \<^verbatim>\<open>p\<close>): its value and
      the bytes it takes, \<open>(0, 0)\<close> when there is none\<close>
  "scan_exponent m r =
     (case r of
        [] \<Rightarrow> None
      | c # t \<Rightarrow>
          if tolower c \<noteq> m then Some (0, 0)
          else
            (case t of
               [] \<Rightarrow> None
             | s # t' \<Rightarrow>
                 if s = CHR ''+'' \<or> s = CHR ''-'' then
                   (case t' of
                      [] \<Rightarrow> None
                    | d # _ \<Rightarrow>
                        if isdigit d then
                          (case scan_while isdigit t' of
                             None \<Rightarrow> None
                           | Some (ds, _) \<Rightarrow>
                               Some (if s = CHR ''-'' then - int (dec_value ds)
                                     else int (dec_value ds), 2 + length ds))
                        else Some (0, 0))
                 else if isdigit s then
                   (case scan_while isdigit t of
                      None \<Rightarrow> None
                    | Some (ds, _) \<Rightarrow> Some (int (dec_value ds), 1 + length ds))
                 else Some (0, 0)))"

definition strtod_decimal :: "char list \<Rightarrow> (rat \<times> nat) option" where
  "strtod_decimal s =
     (case scan_mantissa isdigit s of
        None \<Rightarrow> None
      | Some (ip, fp, n, r) \<Rightarrow>
          if ip = [] \<and> fp = [] then Some (0, 0)
          else
            (case scan_exponent CHR ''e'' r of
               None \<Rightarrow> None
             | Some (e, k) \<Rightarrow>
                 Some (of_nat (dec_value (ip @ fp)) * pow10 (e - int (length fp)), n + k)))"

definition strtod_hex :: "char list \<Rightarrow> (rat \<times> nat) option" where
  \<comment> \<open>the bytes after \<^verbatim>\<open>0x\<close>; without a hexadecimal digit only the \<^verbatim>\<open>0\<close> converts\<close>
  "strtod_hex s =
     (case scan_mantissa isxdigit s of
        None \<Rightarrow> None
      | Some (ip, fp, n, r) \<Rightarrow>
          if ip = [] \<and> fp = [] then Some (0, 1)
          else
            (case scan_exponent CHR ''p'' r of
               None \<Rightarrow> None
             | Some (e, k) \<Rightarrow>
                 Some (of_nat (hex_value (ip @ fp)) * pow2 (e - 4 * int (length fp)), 2 + n + k)))"

fun match_ci :: "char list \<Rightarrow> string \<Rightarrow> bool option" where
  \<comment> \<open>does the text start with the lower-case literal, letter case ignored\<close>
  "match_ci p [] = Some True"
| "match_ci [] (l # ls) = None"
| "match_ci (c # cs) (l # ls) = (if tolower c = l then match_ci cs ls else Some False)"

definition strtod_nan :: "char list \<Rightarrow> nat option" where
  \<comment> \<open>the bytes after \<^verbatim>\<open>nan\<close>: the length of an optional \<^verbatim>\<open>(n-char-sequence)\<close>\<close>
  "strtod_nan s =
     (case s of
        [] \<Rightarrow> None
      | c # t \<Rightarrow>
          if c \<noteq> CHR ''('' then Some 0
          else
            (case scan_while (\<lambda>x. isdigit x \<or> isalpha x \<or> x = CHR ''_'') t of
               None \<Rightarrow> None
             | Some (ns, r) \<Rightarrow>
                 (case r of
                    [] \<Rightarrow> None
                  | e # _ \<Rightarrow> if e = CHR '')'' then Some (length ns + 2) else Some 0)))"

definition DBL_OVERFLOW :: rat where
  \<comment> \<open>the least magnitude that rounds to an infinity\<close>
  "DBL_OVERFLOW = 2 ^ 1024 - 2 ^ 970"

definition to_double :: "rat \<Rightarrow> cdouble" where
  "to_double q =
     (if DBL_OVERFLOW \<le> q then PlusInf else if q \<le> - DBL_OVERFLOW then MinusInf else Finite q)"

definition strtod_body :: "char list \<Rightarrow> (rat option \<times> nat) option" where
  \<comment> \<open>the text after the sign: a magnitude (\<open>None\<close> for an infinity, which \<open>strtod\<close> signs
      below) or a NaN, told apart by the caller through \<open>match_ci\<close>\<close>
  "strtod_body r =
     (case match_ci r ''inf'' of
        None \<Rightarrow> None
      | Some True \<Rightarrow>
          (case match_ci (drop 3 r) ''inity'' of
             None \<Rightarrow> None
           | Some True \<Rightarrow> Some (None, 8)
           | Some False \<Rightarrow> Some (None, 3))
      | Some False \<Rightarrow>
          (case r of
             c0 # x # r' \<Rightarrow>
               if c0 = CHR ''0'' \<and> tolower x = CHR ''x'' then
                 (case strtod_hex r' of None \<Rightarrow> None | Some (q, n) \<Rightarrow> Some (Some q, n))
               else
                 (case strtod_decimal r of None \<Rightarrow> None | Some (q, n) \<Rightarrow> Some (Some q, n))
           | _ \<Rightarrow>
               (case strtod_decimal r of None \<Rightarrow> None | Some (q, n) \<Rightarrow> Some (Some q, n))))"

definition strtod_signed :: "bool \<Rightarrow> nat \<Rightarrow> char list \<Rightarrow> (cdouble \<times> nat) option" where
  \<comment> \<open>\<open>neg\<close>: a minus sign was read; \<open>k\<close>: the bytes of white space and sign before \<open>r\<close>\<close>
  "strtod_signed neg k r =
     (case match_ci r ''nan'' of
        None \<Rightarrow> None
      | Some True \<Rightarrow>
          (case strtod_nan (drop 3 r) of None \<Rightarrow> None | Some n \<Rightarrow> Some (NaN, k + 3 + n))
      | Some False \<Rightarrow>
          (case strtod_body r of
             None \<Rightarrow> None
           | Some (v, n) \<Rightarrow>
               if n = 0 then Some (Finite 0, 0)
               else
                 (case v of
                    None \<Rightarrow> Some (if neg then MinusInf else PlusInf, k + n)
                  | Some q \<Rightarrow> Some (to_double (if neg then - q else q), k + n))))"

definition strtod :: "char list \<Rightarrow> (cdouble \<times> nat) option" where
  "strtod s =
     (case scan_while isspace s of
        None \<Rightarrow> None
      | Some (ws, r0) \<Rightarrow>
          (case r0 of
             [] \<Rightarrow> None
           | c # r \<Rightarrow>
               if c = CHR ''-'' then strtod_signed True (length ws + 1) r
               else if c = CHR ''+'' then strtod_signed False (length ws + 1) r
               else strtod_signed False (length ws) r0))"

section \<open>The parser\<close>

text \<open>
  The allocator is taken to succeed: \<^verbatim>\<open>global_malloc\<close> and \<^verbatim>\<open>strdup\<close> return
  memory, and the branches the code takes on a null return are not part of the model.

  \<open>pstate\<close> is the \<^verbatim>\<open>parse_buffer\<close> together with the process-wide error slot
  \<^verbatim>\<open>global_error\<close>. \<open>content\<close> is the whole object the text pointer points into, which
  may be longer than the \<open>blength\<close> the caller passes; a read outside \<open>content\<close> has no
  defined result.
\<close>

datatype 'a outcome = Undefined | OutOfFuel | Returns 'a

record pstate =
  content :: "char list"
  blength :: nat
  offset :: nat
  global_error :: "string option"

definition can_read :: "pstate \<Rightarrow> nat \<Rightarrow> bool" where
  "can_read b n = (offset b + n \<le> blength b)"

definition can_access_at_index :: "pstate \<Rightarrow> nat \<Rightarrow> bool" where
  "can_access_at_index b i = (offset b + i < blength b)"

definition buffer_at_offset :: "pstate \<Rightarrow> char list" where
  "buffer_at_offset b = drop (offset b) (content b)"

definition byte_is :: "pstate \<Rightarrow> char \<Rightarrow> bool option" where
  \<comment> \<open>\<^verbatim>\<open>*buffer_at_offset(buffer) == c\<close>, an unchecked read\<close>
  "byte_is b c = (case buffer_at_offset b of [] \<Rightarrow> None | x # _ \<Rightarrow> Some (x = c))"

definition access_is :: "pstate \<Rightarrow> char \<Rightarrow> bool option" where
  \<comment> \<open>\<^verbatim>\<open>can_access_at_index(buffer, 0) && *buffer_at_offset(buffer) == c\<close>\<close>
  "access_is b c = (if can_access_at_index b 0 then byte_is b c else Some False)"

definition literal_is :: "pstate \<Rightarrow> string \<Rightarrow> bool option" where
  \<comment> \<open>\<^verbatim>\<open>can_read(buffer, n) && strncmp(buffer_at_offset(buffer), lit, n) == 0\<close>\<close>
  "literal_is b lit =
     (if can_read b (length lit) then strncmp (buffer_at_offset b) lit else Some False)"

definition fail :: "string \<Rightarrow> pstate \<Rightarrow> ('a option \<times> pstate) outcome" where
  \<comment> \<open>\<^verbatim>\<open>global_error = msg; return 0;\<close>\<close>
  "fail msg b = Returns (None, b\<lparr>global_error := Some msg\<rparr>)"

definition advance :: "nat \<Rightarrow> pstate \<Rightarrow> pstate" where
  "advance n b = b\<lparr>offset := offset b + n\<rparr>"

fun skip_whitespace_loop :: "char list \<Rightarrow> nat \<Rightarrow> nat \<Rightarrow> nat option" where
  "skip_whitespace_loop [] off len = (if off < len then None else Some off)"
| "skip_whitespace_loop (c # cs) off len =
     (if off < len \<and> (of_char c :: nat) \<le> 32 then skip_whitespace_loop cs (off + 1) len
      else Some off)"

definition skip_whitespace :: "pstate \<Rightarrow> pstate option" where
  "skip_whitespace b =
     (case skip_whitespace_loop (buffer_at_offset b) (offset b) (blength b) of
        None \<Rightarrow> None
      | Some off \<Rightarrow> Some (b\<lparr>offset := (if blength b \<le> off then blength b else off)\<rparr>))"

subsection \<open>Node fields\<close>

definition cJSON_New_Item :: cJSON where
  "cJSON_New_Item = Node 0 None 0 (Finite 0) None []"

definition set_type :: "int \<Rightarrow> cJSON \<Rightarrow> cJSON" where
  "set_type t i = Node t (valuestring i) (valueint i) (valuedouble i) (string i) (child i)"

definition set_valuestring :: "string option \<Rightarrow> cJSON \<Rightarrow> cJSON" where
  "set_valuestring s i = Node (type i) s (valueint i) (valuedouble i) (string i) (child i)"

definition set_valueint :: "int \<Rightarrow> cJSON \<Rightarrow> cJSON" where
  "set_valueint n i = Node (type i) (valuestring i) n (valuedouble i) (string i) (child i)"

definition set_valuedouble :: "cdouble \<Rightarrow> cJSON \<Rightarrow> cJSON" where
  "set_valuedouble d i = Node (type i) (valuestring i) (valueint i) d (string i) (child i)"

definition set_string :: "string option \<Rightarrow> cJSON \<Rightarrow> cJSON" where
  "set_string s i = Node (type i) (valuestring i) (valueint i) (valuedouble i) s (child i)"

definition set_child :: "cJSON list \<Rightarrow> cJSON \<Rightarrow> cJSON" where
  "set_child cs i = Node (type i) (valuestring i) (valueint i) (valuedouble i) (string i) cs"

subsection \<open>Strings\<close>

fun scan_string :: "char list \<Rightarrow> nat \<Rightarrow> nat \<Rightarrow> (bool \<times> nat \<times> nat) option" where
  \<comment> \<open>the first loop of \<^verbatim>\<open>parse_string\<close>: \<open>(True, offset, len)\<close> at the closing quote,
      \<open>(False, offset, len)\<close> at a NUL, \<open>None\<close> when it reads outside the object\<close>
  "scan_string [] off len = None"
| "scan_string [c] off len =
     (if c = dquote then Some (True, off, len)
      else if c = NUL then Some (False, off, len)
      else None)"
| "scan_string (c # d # ds) off len =
     (if c = dquote then Some (True, off, len)
      else if c = NUL then Some (False, off, len)
      else if c = bslash then scan_string ds (off + 2) (len + 1)
      else scan_string (d # ds) (off + 1) (len + 1))"

definition put :: "nat \<Rightarrow> char list \<Rightarrow> char \<Rightarrow> char list option" where
  \<comment> \<open>\<^verbatim>\<open>output[out_idx++] = c\<close> into an array of \<open>cap\<close> bytes\<close>
  "put cap out c = (if length out < cap then Some (out @ [c]) else None)"

definition unescape_char :: "char \<Rightarrow> char" where
  \<comment> \<open>the byte stored for the escape \<^verbatim>\<open>\e\<close>\<close>
  "unescape_char e =
     (if e = CHR ''b'' then CHR 0x08
      else if e = CHR ''f'' then CHR 0x0C
      else if e = CHR ''n'' then CHR 0x0A
      else if e = CHR ''r'' then CHR 0x0D
      else if e = CHR ''t'' then CHR 0x09
      else if e = CHR ''u'' then CHR ''?''
      else e)"

fun unescape :: "char list \<Rightarrow> nat \<Rightarrow> char list \<Rightarrow> char list option" where
  \<comment> \<open>the second loop of \<^verbatim>\<open>parse_string\<close> and the store of the final NUL: the bytes of
      \<^verbatim>\<open>output\<close>, \<open>None\<close> when it reads outside the object or writes outside the \<open>cap\<close>
      allocated bytes\<close>
  "unescape [] cap out = None"
| "unescape (c # cs) cap out =
     (if c = dquote then put cap out NUL
      else if c = bslash then
        (case cs of
           [] \<Rightarrow> None
         | e # es \<Rightarrow>
             (case put cap out (unescape_char e) of
                None \<Rightarrow> None
              | Some out' \<Rightarrow>
                  if e = CHR ''u'' then unescape (drop 4 es) cap out' else unescape es cap out'))
      else
        (case put cap out c of
           None \<Rightarrow> None
         | Some out' \<Rightarrow> unescape cs cap out'))"

definition parse_string :: "cJSON \<Rightarrow> pstate \<Rightarrow> (cJSON option \<times> pstate) outcome" where
  "parse_string item b =
     (case buffer_at_offset b of
        [] \<Rightarrow> Undefined
      | c # start \<Rightarrow>
          if c \<noteq> dquote then fail ''Not a string'' b
          else
            (case scan_string start (offset b + 1) 0 of
               None \<Rightarrow> Undefined
             | Some (found, off, len) \<Rightarrow>
                 if \<not> found then fail ''Unterminated string'' (b\<lparr>offset := off\<rparr>)
                 else
                   (case unescape start (len + 1) [] of
                      None \<Rightarrow> Undefined
                    | Some output \<Rightarrow>
                        Returns
                          (Some (set_valuestring (Some (c_string output))
                                   (set_type cJSON_String item)),
                           b\<lparr>offset := off + 1\<rparr>))))"

subsection \<open>Numbers\<close>

definition parse_number :: "cJSON \<Rightarrow> pstate \<Rightarrow> (cJSON option \<times> pstate) outcome" where
  "parse_number item b =
     (case strtod (buffer_at_offset b) of
        None \<Rightarrow> Undefined
      | Some (number, n) \<Rightarrow>
          if n = 0 then fail ''Invalid number'' b
          else
            Returns
              (Some (set_type cJSON_Number
                       (set_valueint (double_to_int number) (set_valuedouble number item))),
               advance n b))"

subsection \<open>Values, arrays and objects\<close>

text \<open>
  \<^verbatim>\<open>parse_value\<close>, \<^verbatim>\<open>parse_array\<close> and \<^verbatim>\<open>parse_object\<close> call each other, and the two
  \<^verbatim>\<open>do ... while\<close> loops run as long as the text has commas. The first argument bounds the
  number of calls still allowed; \<open>parse_fuel\<close> below is enough for every text. The loops
  carry the members built so far (\<^verbatim>\<open>head\<close> to \<^verbatim>\<open>current\<close>) and return \<open>None\<close> for
  \<^verbatim>\<open>goto fail\<close>.
\<close>

definition key_of_string :: "cJSON \<Rightarrow> cJSON" where
  \<comment> \<open>\<^verbatim>\<open>new_item->string = new_item->valuestring; new_item->valuestring = NULL;
      new_item->type = cJSON_Invalid;\<close>\<close>
  "key_of_string i = set_type cJSON_Invalid (set_valuestring None (set_string (valuestring i) i))"

function parse_value :: "nat \<Rightarrow> cJSON \<Rightarrow> pstate \<Rightarrow> (cJSON option \<times> pstate) outcome"
  and parse_array :: "nat \<Rightarrow> cJSON \<Rightarrow> pstate \<Rightarrow> (cJSON option \<times> pstate) outcome"
  and parse_array_loop ::
    "nat \<Rightarrow> cJSON list \<Rightarrow> pstate \<Rightarrow> (cJSON list option \<times> pstate) outcome"
  and parse_object :: "nat \<Rightarrow> cJSON \<Rightarrow> pstate \<Rightarrow> (cJSON option \<times> pstate) outcome"
  and parse_object_loop ::
    "nat \<Rightarrow> cJSON list \<Rightarrow> pstate \<Rightarrow> (cJSON list option \<times> pstate) outcome"
where
  "parse_value 0 item buffer = OutOfFuel"
| "parse_value (Suc fuel) item buffer =
     (case skip_whitespace buffer of
        None \<Rightarrow> Undefined
      | Some b \<Rightarrow>
          if \<not> can_access_at_index b 0 then fail ''Unexpected end'' b
          else
            (case literal_is b ''null'' of
               None \<Rightarrow> Undefined
             | Some True \<Rightarrow> Returns (Some (set_type cJSON_NULL item), advance 4 b)
             | Some False \<Rightarrow>
            (case literal_is b ''false'' of
               None \<Rightarrow> Undefined
             | Some True \<Rightarrow> Returns (Some (set_type cJSON_False item), advance 5 b)
             | Some False \<Rightarrow>
            (case literal_is b ''true'' of
               None \<Rightarrow> Undefined
             | Some True \<Rightarrow> Returns (Some (set_type cJSON_True item), advance 4 b)
             | Some False \<Rightarrow>
            (case buffer_at_offset b of
               [] \<Rightarrow> Undefined
             | c # _ \<Rightarrow>
                 if c = dquote then parse_string item b
                 else if c = CHR ''-'' \<or> isdigit c then parse_number item b
                 else if c = CHR ''['' then parse_array fuel item b
                 else if c = CHR ''{'' then parse_object fuel item b
                 else fail ''Invalid value'' b)))))"
| "parse_array fuel item buffer =
     (case byte_is buffer CHR ''['' of
        None \<Rightarrow> Undefined
      | Some False \<Rightarrow> fail ''Not an array'' buffer
      | Some True \<Rightarrow>
          (case skip_whitespace (advance 1 buffer) of
             None \<Rightarrow> Undefined
           | Some b \<Rightarrow>
               (case access_is b CHR '']'' of
                  None \<Rightarrow> Undefined
                | Some True \<Rightarrow> Returns (Some (set_type cJSON_Array item), advance 1 b)
                | Some False \<Rightarrow>
                    (case parse_array_loop fuel [] b of
                       Undefined \<Rightarrow> Undefined
                     | OutOfFuel \<Rightarrow> OutOfFuel
                     | Returns (None, b') \<Rightarrow> Returns (None, b')
                     | Returns (Some head, b') \<Rightarrow>
                         (case byte_is b' CHR '']'' of
                            None \<Rightarrow> Undefined
                          | Some False \<Rightarrow> fail ''Expected ]'' b'
                          | Some True \<Rightarrow>
                              Returns (Some (set_child head (set_type cJSON_Array item)),
                                       advance 1 b'))))))"
| "parse_array_loop 0 head buffer = OutOfFuel"
| "parse_array_loop (Suc fuel) head buffer =
     (case skip_whitespace buffer of
        None \<Rightarrow> Undefined
      | Some b \<Rightarrow>
          (case parse_value fuel cJSON_New_Item b of
             Undefined \<Rightarrow> Undefined
           | OutOfFuel \<Rightarrow> OutOfFuel
           | Returns (None, b1) \<Rightarrow> Returns (None, b1)
           | Returns (Some new_item, b1) \<Rightarrow>
               (case skip_whitespace b1 of
                  None \<Rightarrow> Undefined
                | Some b2 \<Rightarrow>
                    (case access_is b2 CHR '','' of
                       None \<Rightarrow> Undefined
                     | Some False \<Rightarrow> Returns (Some (head @ [new_item]), b2)
                     | Some True \<Rightarrow>
                         if offset b2 \<noteq> 0
                         then parse_array_loop fuel (head @ [new_item]) (advance 1 b2)
                         else Returns (Some (head @ [new_item]), advance 1 b2)))))"
| "parse_object fuel item buffer =
     (case byte_is buffer CHR ''{'' of
        None \<Rightarrow> Undefined
      | Some False \<Rightarrow> fail ''Not an object'' buffer
      | Some True \<Rightarrow>
          (case skip_whitespace (advance 1 buffer) of
             None \<Rightarrow> Undefined
           | Some b \<Rightarrow>
               (case access_is b CHR ''}'' of
                  None \<Rightarrow> Undefined
                | Some True \<Rightarrow> Returns (Some (set_type cJSON_Object item), advance 1 b)
                | Some False \<Rightarrow>
                    (case parse_object_loop fuel [] b of
                       Undefined \<Rightarrow> Undefined
                     | OutOfFuel \<Rightarrow> OutOfFuel
                     | Returns (None, b') \<Rightarrow> Returns (None, b')
                     | Returns (Some head, b') \<Rightarrow>
                         (case byte_is b' CHR ''}'' of
                            None \<Rightarrow> Undefined
                          | Some False \<Rightarrow> fail ''Expected }'' b'
                          | Some True \<Rightarrow>
                              Returns (Some (set_child head (set_type cJSON_Object item)),
                                       advance 1 b'))))))"
| "parse_object_loop 0 head buffer = OutOfFuel"
| "parse_object_loop (Suc fuel) head buffer =
     (case skip_whitespace buffer of
        None \<Rightarrow> Undefined
      | Some b \<Rightarrow>
          (case parse_string cJSON_New_Item b of
             Undefined \<Rightarrow> Undefined
           | OutOfFuel \<Rightarrow> OutOfFuel
           | Returns (None, b1) \<Rightarrow> Returns (None, b1)
           | Returns (Some key_item, b1) \<Rightarrow>
               (case skip_whitespace b1 of
                  None \<Rightarrow> Undefined
                | Some b2 \<Rightarrow>
                    (case byte_is b2 CHR '':'' of
                       None \<Rightarrow> Undefined
                     | Some False \<Rightarrow> fail ''Expected :'' b2
                     | Some True \<Rightarrow>
                         (case skip_whitespace (advance 1 b2) of
                            None \<Rightarrow> Undefined
                          | Some b3 \<Rightarrow>
                              (case parse_value fuel (key_of_string key_item) b3 of
                                 Undefined \<Rightarrow> Undefined
                               | OutOfFuel \<Rightarrow> OutOfFuel
                               | Returns (None, b4) \<Rightarrow> Returns (None, b4)
                               | Returns (Some new_item, b4) \<Rightarrow>
                                   (case skip_whitespace b4 of
                                      None \<Rightarrow> Undefined
                                    | Some b5 \<Rightarrow>
                                        (case access_is b5 CHR '','' of
                                           None \<Rightarrow> Undefined
                                         | Some False \<Rightarrow> Returns (Some (head @ [new_item]), b5)
                                         | Some True \<Rightarrow>
                                             if offset b5 \<noteq> 0
                                             then parse_object_loop fuel (head @ [new_item])
                                                    (advance 1 b5)
                                             else Returns (Some (head @ [new_item]),
                                                           advance 1 b5)))))))))"
  by pat_completeness auto

termination
  by (relation "measure (\<lambda>x. case x of
         Inl (Inl (f, _)) \<Rightarrow> 3 * f + 2
       | Inl (Inr (f, _)) \<Rightarrow> 3 * f + 1
       | Inr (Inl (f, _)) \<Rightarrow> 3 * f
       | Inr (Inr (Inl (f, _))) \<Rightarrow> 3 * f + 1
       | Inr (Inr (Inr (f, _))) \<Rightarrow> 3 * f)") auto

subsection \<open>The public parse functions\<close>

definition parse_fuel :: "nat \<Rightarrow> nat" where
  "parse_fuel len = 2 * len + 1"

definition cJSON_ParseWithLength ::
  "char list option \<Rightarrow> nat \<Rightarrow> string option \<Rightarrow> (cJSON option \<times> string option) outcome" where
  \<comment> \<open>the third argument is \<^verbatim>\<open>global_error\<close> before the call, the second component of the
      result is \<^verbatim>\<open>global_error\<close> after it\<close>
  "cJSON_ParseWithLength value len err =
     (case value of
        None \<Rightarrow> Returns (None, Some ''Null input'')
      | Some bytes \<Rightarrow>
          if len = 0 then Returns (None, Some ''Null input'')
          else
            (case parse_value (parse_fuel len) cJSON_New_Item
                    \<lparr>content = bytes, blength = len, offset = 0, global_error = None\<rparr> of
               Undefined \<Rightarrow> Undefined
             | OutOfFuel \<Rightarrow> OutOfFuel
             | Returns (item, b) \<Rightarrow> Returns (item, global_error b)))"

definition cJSON_Parse ::
  "string option \<Rightarrow> string option \<Rightarrow> (cJSON option \<times> string option) outcome" where
  \<comment> \<open>the object behind a C string is its bytes and the terminating NUL\<close>
  "cJSON_Parse value err =
     (case value of
        None \<Rightarrow> cJSON_ParseWithLength None 0 err
      | Some s \<Rightarrow> cJSON_ParseWithLength (Some (s @ [NUL])) (strlen (s @ [NUL])) err)"

definition cJSON_GetErrorPtr :: "string option \<Rightarrow> string option" where
  \<comment> \<open>reads the error slot\<close>
  "cJSON_GetErrorPtr err = err"

section \<open>Access and construction\<close>

subsection \<open>Object lookup\<close>

fun find_member :: "(string \<Rightarrow> bool) \<Rightarrow> cJSON list \<Rightarrow> cJSON option" where
  \<comment> \<open>the loop \<^verbatim>\<open>while (child) { if (child->string && eq(child->string)) return child;
      child = child->next; } return NULL;\<close>\<close>
  "find_member eq [] = None"
| "find_member eq (c # cs) =
     (case string c of
        None \<Rightarrow> find_member eq cs
      | Some k \<Rightarrow> if eq k then Some c else find_member eq cs)"

definition cJSON_GetObjectItem :: "cJSON option \<Rightarrow> string option \<Rightarrow> cJSON option" where
  "cJSON_GetObjectItem object str =
     (case object of
        None \<Rightarrow> None
      | Some obj \<Rightarrow>
          (case str of
             None \<Rightarrow> None
           | Some s \<Rightarrow> find_member (\<lambda>k. strcasecmp k s) (child obj)))"

definition cJSON_GetObjectItemCaseSensitive ::
  "cJSON option \<Rightarrow> string option \<Rightarrow> cJSON option" where
  "cJSON_GetObjectItemCaseSensitive object str =
     (case object of
        None \<Rightarrow> None
      | Some obj \<Rightarrow>
          (case str of
             None \<Rightarrow> None
           | Some s \<Rightarrow> find_member (\<lambda>k. strcmp k s) (child obj)))"

subsection \<open>Create items\<close>

definition strdup :: "string \<Rightarrow> string" where
  \<comment> \<open>a copy of the C string\<close>
  "strdup s = c_string s"

definition cJSON_CreateNull :: cJSON where
  "cJSON_CreateNull = set_type cJSON_NULL cJSON_New_Item"

definition cJSON_CreateTrue :: cJSON where
  "cJSON_CreateTrue = set_type cJSON_True cJSON_New_Item"

definition cJSON_CreateFalse :: cJSON where
  "cJSON_CreateFalse = set_type cJSON_False cJSON_New_Item"

definition cJSON_CreateBool :: "bool \<Rightarrow> cJSON" where
  "cJSON_CreateBool boolean = set_type (if boolean then cJSON_True else cJSON_False) cJSON_New_Item"

definition cJSON_CreateNumber :: "cdouble \<Rightarrow> cJSON" where
  "cJSON_CreateNumber num =
     set_valueint (double_to_int num) (set_valuedouble num (set_type cJSON_Number cJSON_New_Item))"

definition cJSON_CreateString :: "string option \<Rightarrow> cJSON" where
  "cJSON_CreateString str =
     set_valuestring (case str of None \<Rightarrow> None | Some s \<Rightarrow> Some (strdup s))
       (set_type cJSON_String cJSON_New_Item)"

definition cJSON_CreateRaw :: "string option \<Rightarrow> cJSON" where
  "cJSON_CreateRaw raw =
     set_valuestring (case raw of None \<Rightarrow> None | Some s \<Rightarrow> Some (strdup s))
       (set_type cJSON_Raw cJSON_New_Item)"

definition cJSON_CreateArray :: cJSON where
  "cJSON_CreateArray = set_type cJSON_Array cJSON_New_Item"

definition cJSON_CreateObject :: cJSON where
  "cJSON_CreateObject = set_type cJSON_Object cJSON_New_Item"

subsection \<open>Add to array/object\<close>

text \<open>
  The add functions change the container in place and return 0 or 1; the model returns
  that flag and the container after the call.
\<close>

definition add_item_to_array :: "cJSON option \<Rightarrow> cJSON option \<Rightarrow> bool \<times> cJSON option" where
  "add_item_to_array array item =
     (case array of
        None \<Rightarrow> (False, array)
      | Some a \<Rightarrow>
          (case item of
             None \<Rightarrow> (False, array)
           | Some i \<Rightarrow> (True, Some (set_child (child a @ [i]) a))))"

definition cJSON_AddItemToArray :: "cJSON option \<Rightarrow> cJSON option \<Rightarrow> bool \<times> cJSON option" where
  "cJSON_AddItemToArray array item = add_item_to_array array item"

definition add_item_to_object ::
  "cJSON option \<Rightarrow> string option \<Rightarrow> cJSON option \<Rightarrow> bool \<Rightarrow> bool \<times> cJSON option" where
  "add_item_to_object object str item constant_key =
     (case object of
        None \<Rightarrow> (False, object)
      | Some obj \<Rightarrow>
          (case str of
             None \<Rightarrow> (False, object)
           | Some s \<Rightarrow>
               (case item of
                  None \<Rightarrow> (False, object)
                | Some i \<Rightarrow>
                    if constant_key
                    then add_item_to_array object
                           (Some (set_type (type i OR cJSON_StringIsConst)
                                    (set_string (Some (c_string s)) i)))
                    else add_item_to_array object (Some (set_string (Some (strdup s)) i)))))"

definition cJSON_AddItemToObject ::
  "cJSON option \<Rightarrow> string option \<Rightarrow> cJSON option \<Rightarrow> bool \<times> cJSON option" where
  "cJSON_AddItemToObject object str item = add_item_to_object object str item False"

definition cJSON_AddItemToObjectCS ::
  "cJSON option \<Rightarrow> string option \<Rightarrow> cJSON option \<Rightarrow> bool \<times> cJSON option" where
  "cJSON_AddItemToObjectCS object str item = add_item_to_object object str item True"

section \<open>The serializer\<close>

text \<open>
  \<open>buffer\<close> holds the bytes written so far, so the \<^verbatim>\<open>offset\<close> of the C structure is
  its length; \<open>plength\<close> is the allocated size. The fields \<^verbatim>\<open>format\<close> and \<^verbatim>\<open>depth\<close>
  are set to 0 and never read. Every print function leaves a NUL at \<^verbatim>\<open>offset\<close>.
\<close>

record printbuffer =
  buffer :: string
  plength :: nat

definition poffset :: "printbuffer \<Rightarrow> nat" where
  "poffset p = length (buffer p)"

definition ensure_buffer :: "printbuffer \<Rightarrow> nat \<Rightarrow> printbuffer" where
  \<comment> \<open>returns 1 with the buffer grown to twice the needed size when it was too small\<close>
  "ensure_buffer p needed =
     (if needed + poffset p + 1 \<le> plength p then p
      else p\<lparr>plength := (needed + poffset p + 1) * 2\<rparr>)"

definition emit :: "string \<Rightarrow> printbuffer \<Rightarrow> printbuffer" where
  \<comment> \<open>store the bytes at \<^verbatim>\<open>offset\<close> and move \<^verbatim>\<open>offset\<close> behind them\<close>
  "emit s p = p\<lparr>buffer := buffer p @ s\<rparr>"

definition hex_digit :: "nat \<Rightarrow> char" where
  "hex_digit d = ''0123456789abcdef'' ! d"

definition print_escaped :: "char \<Rightarrow> string" where
  "print_escaped c =
     (if c = dquote then [bslash, dquote]
      else if c = bslash then [bslash, bslash]
      else if c = CHR 0x08 then [bslash, CHR ''b'']
      else if c = CHR 0x0C then [bslash, CHR ''f'']
      else if c = CHR 0x0A then [bslash, CHR ''n'']
      else if c = CHR 0x0D then [bslash, CHR ''r'']
      else if c = CHR 0x09 then [bslash, CHR ''t'']
      else if (of_char c :: nat) < 32 then
        [bslash, CHR ''u'', CHR ''0'', CHR ''0'',
         hex_digit ((of_char c :: nat) div 16), hex_digit ((of_char c :: nat) mod 16)]
      else [c])"

fun print_string_loop :: "string \<Rightarrow> string" where
  \<comment> \<open>\<^verbatim>\<open>for (p = str; *p; p++)\<close>\<close>
  "print_string_loop [] = []"
| "print_string_loop (c # cs) = (if c = NUL then [] else print_escaped c @ print_string_loop cs)"

definition print_string_ptr :: "string option \<Rightarrow> printbuffer \<Rightarrow> printbuffer option" where
  "print_string_ptr str p =
     (let s = (case str of None \<Rightarrow> [] | Some x \<Rightarrow> x)
      in Some (emit ([dquote] @ print_string_loop s @ [dquote])
                 (ensure_buffer p (strlen s * 6 + 3))))"

definition fmt_g_double :: "cdouble \<Rightarrow> string" where
  "fmt_g_double d =
     (case d of Finite q \<Rightarrow> fmt_g q | PlusInf \<Rightarrow> ''inf'' | MinusInf \<Rightarrow> ''-inf'' | NaN \<Rightarrow> ''nan'')"

definition print_number :: "cJSON \<Rightarrow> printbuffer \<Rightarrow> printbuffer option" where
  "print_number item p =
     (let d = valuedouble item
      in Some (emit (if isnan d \<or> isinf d then ''null''
                     else if double_eq d (int_to_double (valueint item)) then fmt_d (valueint item)
                     else fmt_g_double d)
                 (ensure_buffer p 64)))"

fun print_value :: "cJSON option \<Rightarrow> printbuffer \<Rightarrow> printbuffer option"
  and print_array :: "cJSON \<Rightarrow> printbuffer \<Rightarrow> printbuffer option"
  and print_array_loop :: "cJSON list \<Rightarrow> printbuffer \<Rightarrow> printbuffer option"
  and print_object :: "cJSON \<Rightarrow> printbuffer \<Rightarrow> printbuffer option"
  and print_object_loop :: "cJSON list \<Rightarrow> printbuffer \<Rightarrow> printbuffer option"
where
  "print_value None p = None"
| "print_value (Some (Node t vs vi vd s ch)) p =
     (if t AND 0xFF = cJSON_NULL then Some (emit ''null'' (ensure_buffer p 5))
      else if t AND 0xFF = cJSON_False then Some (emit ''false'' (ensure_buffer p 6))
      else if t AND 0xFF = cJSON_True then Some (emit ''true'' (ensure_buffer p 5))
      else if t AND 0xFF = cJSON_Number then print_number (Node t vs vi vd s ch) p
      else if t AND 0xFF = cJSON_Raw \<or> t AND 0xFF = cJSON_String then print_string_ptr vs p
      else if t AND 0xFF = cJSON_Array then print_array (Node t vs vi vd s ch) p
      else if t AND 0xFF = cJSON_Object then print_object (Node t vs vi vd s ch) p
      else None)"
| "print_array (Node t vs vi vd s ch) p =
     (case print_array_loop ch (emit ''['' (ensure_buffer p 1)) of
        None \<Rightarrow> None
      | Some p' \<Rightarrow> Some (emit '']'' (ensure_buffer p' 1)))"
| "print_array_loop [] p = Some p"
| "print_array_loop (c # cs) p =
     (case print_value (Some c) p of
        None \<Rightarrow> None
      | Some p' \<Rightarrow>
          if cs \<noteq> [] then print_array_loop cs (emit '','' (ensure_buffer p' 1))
          else print_array_loop cs p')"
| "print_object (Node t vs vi vd s ch) p =
     (case print_object_loop ch (emit ''{'' (ensure_buffer p 1)) of
        None \<Rightarrow> None
      | Some p' \<Rightarrow> Some (emit ''}'' (ensure_buffer p' 1)))"
| "print_object_loop [] p = Some p"
| "print_object_loop (c # cs) p =
     (case print_string_ptr (string c) p of
        None \<Rightarrow> None
      | Some p1 \<Rightarrow>
          (case print_value (Some c) (emit '':'' (ensure_buffer p1 1)) of
             None \<Rightarrow> None
           | Some p' \<Rightarrow>
               if cs \<noteq> [] then print_object_loop cs (emit '','' (ensure_buffer p' 1))
               else print_object_loop cs p'))"

definition cJSON_PrintUnformatted :: "cJSON option \<Rightarrow> string option" where
  "cJSON_PrintUnformatted item =
     (case print_value item \<lparr>buffer = [], plength = 256\<rparr> of
        None \<Rightarrow> None
      | Some p \<Rightarrow> Some (buffer p))"

definition cJSON_Print :: "cJSON option \<Rightarrow> string option" where
  "cJSON_Print item = cJSON_PrintUnformatted item"

section \<open>Which allocator each call reaches\<close>

text \<open>
  \<^verbatim>\<open>global_malloc\<close> and \<^verbatim>\<open>global_free\<close> hold the pair installed by
  \<^verbatim>\<open>cJSON_InitHooks\<close>; \<^verbatim>\<open>strdup\<close> is the platform's and allocates with the platform's
  \<^verbatim>\<open>malloc\<close>, whatever pair is installed. The functions of this section list, in order,
  the allocator calls of the construction and deletion functions.
\<close>

datatype allocator = Hooks | Platform

datatype block = NodeBlock | ValueStringBlock | KeyStringBlock

datatype mem_event = Allocates allocator block | Releases allocator block

definition cJSON_New_Item_events :: "mem_event list" where
  \<comment> \<open>\<^verbatim>\<open>global_malloc(sizeof(cJSON))\<close>\<close>
  "cJSON_New_Item_events = [Allocates Hooks NodeBlock]"

definition strdup_events :: "block \<Rightarrow> mem_event list" where
  "strdup_events b = [Allocates Platform b]"

definition cJSON_CreateString_events :: "string option \<Rightarrow> mem_event list" where
  "cJSON_CreateString_events str =
     cJSON_New_Item_events @
     (case str of None \<Rightarrow> [] | Some s \<Rightarrow> strdup_events ValueStringBlock)"

definition cJSON_CreateRaw_events :: "string option \<Rightarrow> mem_event list" where
  "cJSON_CreateRaw_events raw =
     cJSON_New_Item_events @
     (case raw of None \<Rightarrow> [] | Some s \<Rightarrow> strdup_events ValueStringBlock)"

definition add_item_to_object_events ::
  "cJSON option \<Rightarrow> string option \<Rightarrow> cJSON option \<Rightarrow> bool \<Rightarrow> mem_event list" where
  "add_item_to_object_events object str item constant_key =
     (if object = None \<or> str = None \<or> item = None then []
      else if constant_key then []
      else strdup_events KeyStringBlock)"

fun cJSON_Delete_events :: "cJSON list \<Rightarrow> mem_event list" where
  \<comment> \<open>the argument is the sibling chain that starts at \<^verbatim>\<open>item\<close>\<close>
  "cJSON_Delete_events [] = []"
| "cJSON_Delete_events (Node t vs vi vd s ch # next) =
     (if t AND cJSON_IsReference = 0 \<and> ch \<noteq> [] then cJSON_Delete_events ch else []) @
     (if t AND cJSON_IsReference = 0 \<and> vs \<noteq> None then [Releases Hooks ValueStringBlock]
      else []) @
     (if t AND cJSON_StringIsConst = 0 \<and> s \<noteq> None then [Releases Hooks KeyStringBlock]
      else []) @
     [Releases Hooks NodeBlock] @
     cJSON_Delete_events next"

section \<open>String literals as lists of tokens\<close>

text \<open>
  The text between the quotes of a JSON string is a list of tokens: a byte that stands
  for itself, a backslash with one more byte, or \<^verbatim>\<open>\u\<close> with four hexadecimal digits.
  \<open>tok_text\<close> is the text of a token, \<open>tok_char\<close> the byte \<^verbatim>\<open>parse_string\<close> stores for
  it, and \<open>tok_len\<close> what the first loop of \<^verbatim>\<open>parse_string\<close> adds to \<^verbatim>\<open>len\<close>.
\<close>

datatype tok = Plain char | Esc char | UEsc char char char char

fun tok_text :: "tok \<Rightarrow> string" where
  "tok_text (Plain c) = [c]"
| "tok_text (Esc e) = [bslash, e]"
| "tok_text (UEsc a b c d) = [bslash, CHR ''u'', a, b, c, d]"

fun tok_char :: "tok \<Rightarrow> char" where
  "tok_char (Plain c) = c"
| "tok_char (Esc e) = unescape_char e"
| "tok_char (UEsc a b c d) = CHR ''?''"

fun tok_len :: "tok \<Rightarrow> nat" where
  "tok_len (Plain c) = 1"
| "tok_len (Esc e) = 1"
| "tok_len (UEsc a b c d) = 5"

definition plain_char :: "char \<Rightarrow> bool" where
  "plain_char c = (c \<noteq> dquote \<and> c \<noteq> bslash \<and> c \<noteq> NUL)"

fun tok_ok :: "tok \<Rightarrow> bool" where
  "tok_ok (Plain c) = plain_char c"
| "tok_ok (Esc e) = (e \<noteq> CHR ''u'' \<and> e \<noteq> NUL)"
| "tok_ok (UEsc a b c d) = (isxdigit a \<and> isxdigit b \<and> isxdigit c \<and> isxdigit d)"

section \<open>Properties of parse functions\<close>

definition keeps_error :: "(pstate \<Rightarrow> ('a option \<times> pstate) outcome) \<Rightarrow> bool" where
  \<comment> \<open>a call that returns 1 leaves the error slot as it found it\<close>
  "keeps_error f = (\<forall>b r b'. f b = Returns (Some r, b') \<longrightarrow> global_error b' = global_error b)"

section \<open>Evaluation rules\<close>

text \<open>Collections of defining equations, for running the model on a concrete input.\<close>

lemmas cJSON_types =
  cJSON_Invalid_def cJSON_False_def cJSON_True_def cJSON_NULL_def cJSON_Number_def
  cJSON_String_def cJSON_Array_def cJSON_Object_def cJSON_Raw_def
  cJSON_IsReference_def cJSON_StringIsConst_def

lemmas set_fields =
  set_type_def set_valuestring_def set_valueint_def set_valuedouble_def set_string_def
  set_child_def cJSON_New_Item_def key_of_string_def

lemma floor_rat_numeral [simp]:
  "\<lfloor>numeral a / numeral b :: rat\<rfloor> = numeral a div numeral b"
  by (metis floor_divide_of_int_eq of_int_numeral)

lemmas fmt_eval =
  fmt_g_def fmt_g_pos_def fmt_d_def decimal_exponent_def pow10_def round_half_even_def
  strip_zeros_def fmt_exponent_def dec_digits.simps digit_char_def Let_def

lemmas double_eval =
  double_to_int_def trunc_zero_def INT_MIN_def INT_MAX_def int_to_double_def isnan_def
  isinf_def double_eq_def fmt_g_double_def

lemmas strtod_eval =
  strtod_def strtod_signed_def strtod_body_def strtod_decimal_def strtod_hex_def
  scan_mantissa_def scan_exponent_def strtod_nan_def to_double_def DBL_OVERFLOW_def
  isspace_def isdigit_def isxdigit_def isalpha_def tolower_def digit_val_def dec_value_def
  pow10_def

declare parse_value.simps [simp del] parse_array.simps [simp del]
  parse_array_loop.simps [simp del] parse_object.simps [simp del]
  parse_object_loop.simps [simp del]

lemmas parse_value_numeral =
  parse_value.simps(2) [of "pred_numeral k" for k, folded numeral_eq_Suc]
  parse_array_loop.simps(2) [of "pred_numeral k" for k, folded numeral_eq_Suc]
  parse_object_loop.simps(2) [of "pred_numeral k" for k, folded numeral_eq_Suc]

lemmas parse_eval =
  cJSON_Parse_def cJSON_ParseWithLength_def parse_fuel_def strlen_def c_string_def
  parse_value_numeral parse_value.simps(1) parse_array.simps parse_array_loop.simps(1)
  parse_object.simps parse_object_loop.simps(1) skip_whitespace_def buffer_at_offset_def can_access_at_index_def
  can_read_def literal_is_def byte_is_def access_is_def fail_def advance_def
  parse_string_def parse_number_def put_def unescape_char_def isdigit_def

lemmas print_eval =
  cJSON_PrintUnformatted_def print_number_def print_string_ptr_def print_escaped_def
  emit_def ensure_buffer_def poffset_def strlen_def c_string_def hex_digit_def

lemmas create_eval =
  cJSON_CreateNull_def cJSON_CreateTrue_def cJSON_CreateFalse_def cJSON_CreateBool_def
  cJSON_CreateNumber_def cJSON_CreateString_def cJSON_CreateRaw_def cJSON_CreateArray_def
  cJSON_CreateObject_def strdup_def c_string_def add_item_to_array_def
  cJSON_AddItemToArray_def add_item_to_object_def cJSON_AddItemToObject_def
  cJSON_AddItemToObjectCS_def

lemma buffer_ensure_buffer [simp]: "buffer (ensure_buffer p n) = buffer p"
  by (simp add: ensure_buffer_def)

lemma tolower_upper_A: "tolower CHR ''A'' = CHR ''a''"
  by code_simp

section \<open>Parsing string literals\<close>

lemma buffer_at_offset_advance [simp]:
  "buffer_at_offset (advance n b) = drop n (buffer_at_offset b)"
  by (simp add: buffer_at_offset_def advance_def add.commute)

lemma advance_fields [simp]:
  "offset (advance n b) = offset b + n" "blength (advance n b) = blength b"
  "content (advance n b) = content b" "global_error (advance n b) = global_error b"
  by (simp_all add: advance_def)

lemma advance_advance [simp]: "advance m (advance n b) = advance (n + m) b"
  by (simp add: advance_def add.assoc)

lemma advance_0 [simp]: "advance 0 b = b"
  by (simp add: advance_def)

lemma skip_whitespace_nonspace:
  assumes "buffer_at_offset b = c # cs" "32 < (of_char c :: nat)" "offset b \<le> blength b"
  shows "skip_whitespace b = Some b"
  using assms by (simp add: skip_whitespace_def)

lemma isxdigit_plain: "isxdigit c \<Longrightarrow> plain_char c"
  by (auto simp add: isxdigit_def isdigit_def plain_char_def)

lemma scan_string_plain:
  "plain_char c \<Longrightarrow> scan_string (c # cs) off len = scan_string cs (off + 1) (len + 1)"
  by (cases cs) (auto simp add: plain_char_def)

lemma scan_string_tok:
  assumes "tok_ok t"
  shows "scan_string (tok_text t @ cs) off len =
           scan_string cs (off + length (tok_text t)) (len + tok_len t)"
proof (cases t)
  case (Plain c)
  then show ?thesis using assms by (simp add: scan_string_plain)
next
  case (Esc e)
  then show ?thesis by (cases cs) simp_all
next
  case (UEsc a b c d)
  then have plain: "plain_char a" "plain_char b" "plain_char c" "plain_char d"
    using assms by (simp_all add: isxdigit_plain)
  have "scan_string (bslash # CHR ''u'' # a # b # c # d # cs) off len =
          scan_string (a # b # c # d # cs) (off + 2) (len + 1)"
    by simp
  also have "\<dots> = scan_string cs (off + 2 + 1 + 1 + 1 + 1) (len + 1 + 1 + 1 + 1 + 1)"
    by (simp only: scan_string_plain [OF plain(1)] scan_string_plain [OF plain(2)]
        scan_string_plain [OF plain(3)] scan_string_plain [OF plain(4)])
  finally show ?thesis
    using UEsc by (simp add: eval_nat_numeral del: scan_string.simps)
qed

lemma scan_string_toks:
  assumes "list_all tok_ok ts"
  shows "scan_string (concat (map tok_text ts) @ dquote # rest) off len =
           Some (True, off + length (concat (map tok_text ts)), len + sum_list (map tok_len ts))"
  using assms
proof (induction ts arbitrary: off len)
  case Nil
  then show ?case by (cases rest) simp_all
next
  case (Cons t ts)
  then show ?case
    by (simp add: scan_string_tok add.assoc)
qed

lemma unescape_tok:
  assumes "tok_ok t" "length out < cap"
  shows "unescape (tok_text t @ cs) cap out = unescape cs cap (out @ [tok_char t])"
proof (cases t)
  case (Plain c)
  then show ?thesis using assms by (simp add: plain_char_def put_def)
next
  case (Esc e)
  then show ?thesis using assms by (simp add: put_def)
next
  case (UEsc a b c d)
  then show ?thesis using assms by (simp add: put_def unescape_char_def)
qed

lemma unescape_toks:
  assumes "list_all tok_ok ts" "length out + length ts < cap"
  shows "unescape (concat (map tok_text ts) @ dquote # rest) cap out =
           Some (out @ map tok_char ts @ [NUL])"
  using assms
proof (induction ts arbitrary: out)
  case Nil
  then show ?case by (simp add: put_def)
next
  case (Cons t ts)
  then show ?case by (simp add: unescape_tok)
qed

lemma tok_len_ge: "length ts \<le> sum_list (map tok_len ts)"
proof (induction ts)
  case Nil
  show ?case by simp
next
  case (Cons t ts)
  then show ?case by (cases t) simp_all
qed

lemma tok_char_not_NUL: "tok_ok t \<Longrightarrow> tok_char t \<noteq> NUL"
  by (cases t) (auto simp add: plain_char_def unescape_char_def)

lemma tok_text_not_NUL: "tok_ok t \<Longrightarrow> NUL \<notin> set (tok_text t)"
  by (cases t) (auto simp add: plain_char_def isxdigit_def isdigit_def)

lemma c_string_terminated: "NUL \<notin> set s \<Longrightarrow> c_string (s @ NUL # rest) = s"
  by (induction s) (auto simp add: c_string_def)

lemma c_string_id: "NUL \<notin> set s \<Longrightarrow> c_string s = s"
  by (induction s) (auto simp add: c_string_def)

lemma strlen_terminated: "NUL \<notin> set s \<Longrightarrow> strlen (s @ NUL # rest) = length s"
  by (simp add: strlen_def c_string_terminated)

lemma toks_text_not_NUL:
  "list_all tok_ok ts \<Longrightarrow> NUL \<notin> set (concat (map tok_text ts))"
  by (induction ts) (auto simp add: tok_text_not_NUL)

lemma toks_char_not_NUL: "list_all tok_ok ts \<Longrightarrow> NUL \<notin> set (map tok_char ts)"
  by (induction ts) (auto simp add: tok_char_not_NUL [THEN not_sym])

lemma parse_string_toks:
  assumes at: "buffer_at_offset b = dquote # concat (map tok_text ts) @ dquote # rest"
    and ok: "list_all tok_ok ts"
  shows "parse_string item b =
           Returns (Some (set_valuestring (Some (map tok_char ts)) (set_type cJSON_String item)),
                    advance (length (concat (map tok_text ts)) + 2) b)"
proof -
  have scan: "scan_string (concat (map tok_text ts) @ dquote # rest) (Suc (offset b)) 0 =
                Some (True, Suc (offset b + length (concat (map tok_text ts))),
                      sum_list (map tok_len ts))"
    using scan_string_toks [OF ok, of rest "Suc (offset b)" 0] by simp
  have "length ([] :: char list) + length ts < Suc (sum_list (map tok_len ts))"
    using tok_len_ge [of ts] by simp
  with ok have "unescape (concat (map tok_text ts) @ dquote # rest)
                  (Suc (sum_list (map tok_len ts))) [] = Some ([] @ map tok_char ts @ [NUL])"
    by (rule unescape_toks)
  then have copy: "unescape (concat (map tok_text ts) @ dquote # rest)
                     (Suc (sum_list (map tok_len ts))) [] = Some (map tok_char ts @ [NUL])"
    by simp
  have str: "c_string (map tok_char ts @ [NUL]) = map tok_char ts"
    by (rule c_string_terminated [OF toks_char_not_NUL [OF ok]])
  show ?thesis
    by (simp add: parse_string_def at scan copy str advance_def)
qed

lemma literal_is_other:
  assumes "buffer_at_offset b = c # cs" "c \<noteq> l"
  shows "literal_is b (l # ls) = Some False"
  using assms by (simp add: literal_is_def)

lemma parse_value_string:
  assumes "buffer_at_offset b = dquote # cs" "offset b < blength b"
  shows "parse_value (Suc fuel) item b = parse_string item b"
proof -
  have skip: "skip_whitespace b = Some b"
    using assms by (intro skip_whitespace_nonspace [of b dquote cs]) simp_all
  have lits: "literal_is b ''null'' = Some False" "literal_is b ''false'' = Some False"
    "literal_is b ''true'' = Some False"
    using assms(1) by (simp_all add: literal_is_other)
  show ?thesis
    using assms by (simp add: parse_value.simps skip lits can_access_at_index_def)
qed

section \<open>The paths on which the parser succeeds\<close>

lemma skip_whitespace_fields:
  assumes "skip_whitespace b = Some b'"
  shows "global_error b' = global_error b" "content b' = content b" "blength b' = blength b"
  using assms by (auto simp add: skip_whitespace_def split: option.splits)

lemma parse_value_success:
  assumes "parse_value (Suc fuel) item b = Returns (Some i, b')"
  obtains b0 where
    "skip_whitespace b = Some b0"
    "can_access_at_index b0 0"
    "b' = advance 4 b0 \<or> b' = advance 5 b0 \<or>
     parse_string item b0 = Returns (Some i, b') \<or>
     parse_number item b0 = Returns (Some i, b') \<or>
     parse_array fuel item b0 = Returns (Some i, b') \<or>
     parse_object fuel item b0 = Returns (Some i, b')"
  using assms
  by (simp add: parse_value.simps fail_def
      split: option.splits bool.splits list.splits if_splits)

lemma parse_array_success:
  assumes "parse_array fuel item b = Returns (Some i, b')"
  obtains b0 where
    "byte_is b CHR ''['' = Some True"
    "skip_whitespace (advance 1 b) = Some b0"
    "(access_is b0 CHR '']'' = Some True \<and> b' = advance 1 b0) \<or>
     (\<exists>head b1. access_is b0 CHR '']'' = Some False \<and>
        parse_array_loop fuel [] b0 = Returns (Some head, b1) \<and>
        byte_is b1 CHR '']'' = Some True \<and> b' = advance 1 b1)"
  using assms
  by (simp add: parse_array.simps fail_def
      split: option.splits bool.splits outcome.splits prod.splits)

lemma parse_object_success:
  assumes "parse_object fuel item b = Returns (Some i, b')"
  obtains b0 where
    "byte_is b CHR ''{'' = Some True"
    "skip_whitespace (advance 1 b) = Some b0"
    "(access_is b0 CHR ''}'' = Some True \<and> b' = advance 1 b0) \<or>
     (\<exists>head b1. access_is b0 CHR ''}'' = Some False \<and>
        parse_object_loop fuel [] b0 = Returns (Some head, b1) \<and>
        byte_is b1 CHR ''}'' = Some True \<and> b' = advance 1 b1)"
  using assms
  by (simp add: parse_object.simps fail_def
      split: option.splits bool.splits outcome.splits prod.splits)

lemma parse_array_loop_success:
  assumes "parse_array_loop (Suc fuel) head b = Returns (Some ms, b')"
  obtains b0 v b1 b2 where
    "skip_whitespace b = Some b0"
    "parse_value fuel cJSON_New_Item b0 = Returns (Some v, b1)"
    "skip_whitespace b1 = Some b2"
    "(access_is b2 CHR '','' = Some False \<and> b' = b2) \<or>
     (access_is b2 CHR '','' = Some True \<and> offset b2 = 0 \<and> b' = advance 1 b2) \<or>
     (access_is b2 CHR '','' = Some True \<and> offset b2 \<noteq> 0 \<and>
        parse_array_loop fuel (head @ [v]) (advance 1 b2) = Returns (Some ms, b'))"
  using assms
  by (simp add: parse_array_loop.simps
      split: option.splits bool.splits outcome.splits prod.splits if_splits)

lemma parse_object_loop_success:
  assumes "parse_object_loop (Suc fuel) head b = Returns (Some ms, b')"
  obtains b0 k b1 b2 b3 v b4 b5 where
    "skip_whitespace b = Some b0"
    "parse_string cJSON_New_Item b0 = Returns (Some k, b1)"
    "skip_whitespace b1 = Some b2"
    "byte_is b2 CHR '':'' = Some True"
    "skip_whitespace (advance 1 b2) = Some b3"
    "parse_value fuel (key_of_string k) b3 = Returns (Some v, b4)"
    "skip_whitespace b4 = Some b5"
    "(access_is b5 CHR '','' = Some False \<and> b' = b5) \<or>
     (access_is b5 CHR '','' = Some True \<and> offset b5 = 0 \<and> b' = advance 1 b5) \<or>
     (access_is b5 CHR '','' = Some True \<and> offset b5 \<noteq> 0 \<and>
        parse_object_loop fuel (head @ [v]) (advance 1 b5) = Returns (Some ms, b'))"
  using assms
  by (simp add: parse_object_loop.simps fail_def
      split: option.splits bool.splits outcome.splits prod.splits if_splits)

lemma parse_string_keeps_error:
  assumes "parse_string item b = Returns (Some i, b')"
  shows "global_error b' = global_error b"
  using assms
  by (auto simp add: parse_string_def fail_def split: list.splits option.splits if_splits)

lemma parse_number_keeps_error:
  assumes "parse_number item b = Returns (Some i, b')"
  shows "global_error b' = global_error b"
  using assms
  by (auto simp add: parse_number_def fail_def split: option.splits if_splits)

section \<open>The error slot on success\<close>

lemma keeps_errorD:
  "keeps_error f \<Longrightarrow> f b = Returns (Some r, b') \<Longrightarrow> global_error b' = global_error b"
  by (simp add: keeps_error_def)

lemma keeps_error_array:
  assumes "\<And>head. keeps_error (parse_array_loop fuel head)"
  shows "keeps_error (parse_array fuel item)"
  unfolding keeps_error_def
proof (intro allI impI)
  fix b i b'
  assume "parse_array fuel item b = Returns (Some i, b')"
  then show "global_error b' = global_error b"
  proof (rule parse_array_success)
    fix b0
    assume skip: "skip_whitespace (advance 1 b) = Some b0"
      and rest: "(access_is b0 CHR '']'' = Some True \<and> b' = advance 1 b0) \<or>
        (\<exists>head b1. access_is b0 CHR '']'' = Some False \<and>
           parse_array_loop fuel [] b0 = Returns (Some head, b1) \<and>
           byte_is b1 CHR '']'' = Some True \<and> b' = advance 1 b1)"
    have e0: "global_error b0 = global_error b"
      using skip_whitespace_fields(1) [OF skip] by simp
    from rest show ?thesis
      using e0 keeps_errorD [OF assms] by auto
  qed
qed

lemma keeps_error_object:
  assumes "\<And>head. keeps_error (parse_object_loop fuel head)"
  shows "keeps_error (parse_object fuel item)"
  unfolding keeps_error_def
proof (intro allI impI)
  fix b i b'
  assume "parse_object fuel item b = Returns (Some i, b')"
  then show "global_error b' = global_error b"
  proof (rule parse_object_success)
    fix b0
    assume skip: "skip_whitespace (advance 1 b) = Some b0"
      and rest: "(access_is b0 CHR ''}'' = Some True \<and> b' = advance 1 b0) \<or>
        (\<exists>head b1. access_is b0 CHR ''}'' = Some False \<and>
           parse_object_loop fuel [] b0 = Returns (Some head, b1) \<and>
           byte_is b1 CHR ''}'' = Some True \<and> b' = advance 1 b1)"
    have e0: "global_error b0 = global_error b"
      using skip_whitespace_fields(1) [OF skip] by simp
    from rest show ?thesis
      using e0 keeps_errorD [OF assms] by auto
  qed
qed

lemma keeps_error_value:
  assumes "\<And>item. keeps_error (parse_array fuel item)"
    and "\<And>item. keeps_error (parse_object fuel item)"
  shows "keeps_error (parse_value (Suc fuel) item)"
  unfolding keeps_error_def
proof (intro allI impI)
  fix b i b'
  assume "parse_value (Suc fuel) item b = Returns (Some i, b')"
  then show "global_error b' = global_error b"
  proof (rule parse_value_success)
    fix b0
    assume skip: "skip_whitespace b = Some b0"
      and rest: "b' = advance 4 b0 \<or> b' = advance 5 b0 \<or>
        parse_string item b0 = Returns (Some i, b') \<or>
        parse_number item b0 = Returns (Some i, b') \<or>
        parse_array fuel item b0 = Returns (Some i, b') \<or>
        parse_object fuel item b0 = Returns (Some i, b')"
    have e0: "global_error b0 = global_error b"
      by (rule skip_whitespace_fields(1) [OF skip])
    from rest show ?thesis
      using e0 keeps_errorD [OF assms(1)] keeps_errorD [OF assms(2)]
        parse_string_keeps_error parse_number_keeps_error
      by (elim disjE) (simp, simp, metis+)
  qed
qed

lemma keeps_error_array_loop:
  assumes "\<And>item. keeps_error (parse_value fuel item)"
    and "\<And>head. keeps_error (parse_array_loop fuel head)"
  shows "keeps_error (parse_array_loop (Suc fuel) head)"
  unfolding keeps_error_def
proof (intro allI impI)
  fix b ms b'
  assume "parse_array_loop (Suc fuel) head b = Returns (Some ms, b')"
  then show "global_error b' = global_error b"
  proof (rule parse_array_loop_success)
    fix b0 v b1 b2
    assume s0: "skip_whitespace b = Some b0"
      and v: "parse_value fuel cJSON_New_Item b0 = Returns (Some v, b1)"
      and s1: "skip_whitespace b1 = Some b2"
      and rest: "(access_is b2 CHR '','' = Some False \<and> b' = b2) \<or>
        (access_is b2 CHR '','' = Some True \<and> offset b2 = 0 \<and> b' = advance 1 b2) \<or>
        (access_is b2 CHR '','' = Some True \<and> offset b2 \<noteq> 0 \<and>
           parse_array_loop fuel (head @ [v]) (advance 1 b2) = Returns (Some ms, b'))"
    have e2: "global_error b2 = global_error b"
      using skip_whitespace_fields(1) [OF s0] skip_whitespace_fields(1) [OF s1]
        keeps_errorD [OF assms(1) v] by simp
    from rest show ?thesis
      using e2 keeps_errorD [OF assms(2)] by (elim disjE) (simp, simp, fastforce)
  qed
qed

lemma keeps_error_object_loop:
  assumes "\<And>item. keeps_error (parse_value fuel item)"
    and "\<And>head. keeps_error (parse_object_loop fuel head)"
  shows "keeps_error (parse_object_loop (Suc fuel) head)"
  unfolding keeps_error_def
proof (intro allI impI)
  fix b ms b'
  assume "parse_object_loop (Suc fuel) head b = Returns (Some ms, b')"
  then show "global_error b' = global_error b"
  proof (rule parse_object_loop_success)
    fix b0 k b1 b2 b3 v b4 b5
    assume s0: "skip_whitespace b = Some b0"
      and k: "parse_string cJSON_New_Item b0 = Returns (Some k, b1)"
      and s1: "skip_whitespace b1 = Some b2"
      and s2: "skip_whitespace (advance 1 b2) = Some b3"
      and v: "parse_value fuel (key_of_string k) b3 = Returns (Some v, b4)"
      and s4: "skip_whitespace b4 = Some b5"
      and rest: "(access_is b5 CHR '','' = Some False \<and> b' = b5) \<or>
        (access_is b5 CHR '','' = Some True \<and> offset b5 = 0 \<and> b' = advance 1 b5) \<or>
        (access_is b5 CHR '','' = Some True \<and> offset b5 \<noteq> 0 \<and>
           parse_object_loop fuel (head @ [v]) (advance 1 b5) = Returns (Some ms, b'))"
    have e5: "global_error b5 = global_error b"
      using skip_whitespace_fields(1) [OF s0] skip_whitespace_fields(1) [OF s1]
        skip_whitespace_fields(1) [OF s2] skip_whitespace_fields(1) [OF s4]
        keeps_errorD [OF assms(1) v] parse_string_keeps_error [OF k] by simp
    from rest show ?thesis
      using e5 keeps_errorD [OF assms(2)] by (elim disjE) (simp, simp, fastforce)
  qed
qed

lemma parse_keeps_error:
  "(\<forall>item. keeps_error (parse_value fuel item)) \<and>
   (\<forall>head. keeps_error (parse_array_loop fuel head)) \<and>
   (\<forall>head. keeps_error (parse_object_loop fuel head))"
proof (induction fuel)
  case 0
  show ?case
    by (simp add: keeps_error_def parse_value.simps parse_array_loop.simps
        parse_object_loop.simps)
next
  case (Suc fuel)
  then have v: "\<And>item. keeps_error (parse_value fuel item)"
    and a: "\<And>head. keeps_error (parse_array_loop fuel head)"
    and o: "\<And>head. keeps_error (parse_object_loop fuel head)"
    by simp_all
  show ?case
    using keeps_error_value [OF keeps_error_array [OF a] keeps_error_object [OF o]]
      keeps_error_array_loop [OF v a] keeps_error_object_loop [OF v o]
    by simp
qed

section \<open>Kind predicates on a null reference\<close>

text \<open>
  C3, as stated: each of the ten kind predicates returns false on a null reference.
  This fails for \<open>cJSON_IsInvalid\<close>, whose first disjunct is the null test itself.
\<close>

theorem cJSON_IsInvalid_null_counterexample:
  "\<not> (cJSON_IsInvalid None = False)"
  by (simp add: cJSON_IsInvalid_def)

text \<open>
  C3, amended: on a null reference the nine predicates \<open>cJSON_IsFalse\<close>, \<open>cJSON_IsTrue\<close>,
  \<open>cJSON_IsBool\<close>, \<open>cJSON_IsNull\<close>, \<open>cJSON_IsNumber\<close>, \<open>cJSON_IsString\<close>, \<open>cJSON_IsArray\<close>,
  \<open>cJSON_IsObject\<close> and \<open>cJSON_IsRaw\<close> return false, and \<open>cJSON_IsInvalid\<close> returns true;
  none of them reads a field of the absent node.
\<close>

theorem kind_predicates_null:
  "cJSON_IsInvalid None = True \<and> cJSON_IsFalse None = False \<and> cJSON_IsTrue None = False \<and>
   cJSON_IsBool None = False \<and> cJSON_IsNull None = False \<and> cJSON_IsNumber None = False \<and>
   cJSON_IsString None = False \<and> cJSON_IsArray None = False \<and> cJSON_IsObject None = False \<and>
   cJSON_IsRaw None = False"
  by (simp add: cJSON_IsInvalid_def cJSON_IsFalse_def cJSON_IsTrue_def cJSON_IsBool_def
      cJSON_IsNull_def cJSON_IsNumber_def cJSON_IsString_def cJSON_IsArray_def
      cJSON_IsObject_def cJSON_IsRaw_def)

section \<open>A string node made from a null pointer\<close>

text \<open>
  C10: \<open>cJSON_CreateString\<close> of a null pointer returns a node of kind String whose
  \<open>valuestring\<close> is null, and that node serializes as the empty JSON string.
\<close>

theorem cJSON_CreateString_null:
  "cJSON_CreateString None = Node cJSON_String None 0 (Finite 0) None [] \<and>
   cJSON_IsString (Some (cJSON_CreateString None)) \<and>
   valuestring (cJSON_CreateString None) = None \<and>
   cJSON_PrintUnformatted (Some (cJSON_CreateString None)) = Some [dquote, dquote]"
  by (simp add: create_eval set_fields cJSON_types cJSON_IsString_def print_eval)

section \<open>Serializing numbers\<close>

text \<open>
  C8, as stated: a Number node prints as an integer exactly when its double equals its
  integer view, and with a fraction otherwise. The node made from 100000.25 has the integer
  view 100000, which differs from its double; \<^verbatim>\<open>%g\<close> keeps six significant digits, so
  the node still prints as the integer text 100000.
\<close>

theorem print_number_rounds_counterexample:
  "valuedouble (cJSON_CreateNumber (Finite (400001 / 4))) = Finite (400001 / 4) \<and>
   valueint (cJSON_CreateNumber (Finite (400001 / 4))) = 100000 \<and>
   \<not> double_eq (Finite (400001 / 4)) (int_to_double 100000) \<and>
   cJSON_PrintUnformatted (Some (cJSON_CreateNumber (Finite (400001 / 4)))) = Some ''100000'' \<and>
   fmt_d 100000 = ''100000''"
  by (simp add: create_eval set_fields cJSON_types print_eval double_eval fmt_eval)

text \<open>
  C8, amended: a Number node whose double is NaN or infinite prints \<^verbatim>\<open>null\<close>; one whose
  double equals its integer view prints that integer with \<^verbatim>\<open>%d\<close>; every other one
  prints the \<^verbatim>\<open>%g\<close> rendering of its double (six significant digits).
\<close>

theorem print_unformatted_number:
  "type item AND 0xFF = cJSON_Number \<Longrightarrow>
   cJSON_PrintUnformatted (Some item) =
     Some (if isnan (valuedouble item) \<or> isinf (valuedouble item) then ''null''
           else if valuedouble item = Finite (of_int (valueint item)) then fmt_d (valueint item)
           else fmt_g_double (valuedouble item))"
  by (cases item)
     (auto simp add: cJSON_PrintUnformatted_def print_number_def cJSON_types emit_def
        double_eq_def int_to_double_def isnan_def isinf_def)

theorem print_unformatted_number_witness:
  "cJSON_PrintUnformatted (Some (cJSON_CreateNumber (Finite 3))) = Some ''3'' \<and>
   cJSON_PrintUnformatted (Some (cJSON_CreateNumber (Finite (7 / 2)))) = Some ''3.5'' \<and>
   cJSON_PrintUnformatted (Some (cJSON_CreateNumber NaN)) = Some ''null'' \<and>
   cJSON_PrintUnformatted (Some (cJSON_CreateNumber PlusInf)) = Some ''null'' \<and>
   cJSON_PrintUnformatted (Some (cJSON_CreateNumber MinusInf)) = Some ''null''"
  using print_unformatted_number [of "cJSON_CreateNumber (Finite 3)"]
    print_unformatted_number [of "cJSON_CreateNumber (Finite (7 / 2))"]
    print_unformatted_number [of "cJSON_CreateNumber NaN"]
    print_unformatted_number [of "cJSON_CreateNumber PlusInf"]
    print_unformatted_number [of "cJSON_CreateNumber MinusInf"]
  by (simp add: create_eval set_fields cJSON_types double_eval fmt_eval)

section \<open>Object lookup\<close>

lemma find_member_filter:
  "find_member eq cs =
     (case filter (\<lambda>c. case string c of None \<Rightarrow> False | Some k \<Rightarrow> eq k) cs of
        [] \<Rightarrow> None
      | c # _ \<Rightarrow> Some c)"
  by (induction cs) (auto split: option.splits)

lemma parse_duplicate_keys:
  "cJSON_Parse (Some (''{'' @ [dquote] @ ''a'' @ [dquote] @ '':1,'' @ [dquote] @ ''a'' @
                        [dquote] @ '':2}'')) e =
     Returns (Some (Node cJSON_Object None 0 (Finite 0) None
                      [Node cJSON_Number None 1 (Finite 1) (Some ''a'') [],
                       Node cJSON_Number None 2 (Finite 2) (Some ''a'') []]), None)"
  by (simp add: parse_eval strtod_eval double_eval set_fields cJSON_types)

text \<open>
  C7: both lookups return the first member, in sibling order, whose key matches (equal
  for the case-sensitive lookup, equal up to letter case for the other), and null when no
  member matches; on the parse of \<^verbatim>\<open>{"a":1,"a":2}\<close> both return the member with value 1.
\<close>

theorem object_lookup_first_match:
  "cJSON_GetObjectItemCaseSensitive (Some obj) (Some k) =
     (case filter (\<lambda>c. case string c of None \<Rightarrow> False | Some k' \<Rightarrow> k' = k) (child obj) of
        [] \<Rightarrow> None
      | c # _ \<Rightarrow> Some c) \<and>
   cJSON_GetObjectItem (Some obj) (Some k) =
     (case filter (\<lambda>c. case string c of None \<Rightarrow> False
                        | Some k' \<Rightarrow> map tolower k' = map tolower k) (child obj) of
        [] \<Rightarrow> None
      | c # _ \<Rightarrow> Some c) \<and>
   (\<exists>parsed.
      cJSON_Parse (Some (''{'' @ [dquote] @ ''a'' @ [dquote] @ '':1,'' @ [dquote] @ ''a'' @
                          [dquote] @ '':2}'')) None = Returns (Some parsed, None) \<and>
      cJSON_GetObjectItemCaseSensitive (Some parsed) (Some ''a'') =
        Some (Node cJSON_Number None 1 (Finite 1) (Some ''a'') []) \<and>
      cJSON_GetObjectItem (Some parsed) (Some ''a'') =
        Some (Node cJSON_Number None 1 (Finite 1) (Some ''a'') []) \<and>
      cJSON_GetObjectItem (Some parsed) (Some ''A'') =
        Some (Node cJSON_Number None 1 (Finite 1) (Some ''a'') []) \<and>
      cJSON_GetObjectItemCaseSensitive (Some parsed) (Some ''A'') = None \<and>
      cJSON_GetObjectItem (Some parsed) (Some ''b'') = None)"
proof -
  have general:
    "cJSON_GetObjectItemCaseSensitive (Some obj) (Some k) =
       (case filter (\<lambda>c. case string c of None \<Rightarrow> False | Some k' \<Rightarrow> k' = k) (child obj) of
          [] \<Rightarrow> None
        | c # _ \<Rightarrow> Some c)"
    "cJSON_GetObjectItem (Some obj) (Some k) =
       (case filter (\<lambda>c. case string c of None \<Rightarrow> False
                          | Some k' \<Rightarrow> map tolower k' = map tolower k) (child obj) of
          [] \<Rightarrow> None
        | c # _ \<Rightarrow> Some c)"
    by (simp_all add: cJSON_GetObjectItemCaseSensitive_def cJSON_GetObjectItem_def
        find_member_filter strcmp_def strcasecmp_def)
  have lower: "tolower CHR ''a'' = CHR ''a''" "tolower CHR ''b'' = CHR ''b''"
    by (simp_all add: tolower_def)
  have example:
    "cJSON_GetObjectItemCaseSensitive
       (Some (Node cJSON_Object None 0 (Finite 0) None
                [Node cJSON_Number None 1 (Finite 1) (Some ''a'') [],
                 Node cJSON_Number None 2 (Finite 2) (Some ''a'') []])) (Some ''a'') =
       Some (Node cJSON_Number None 1 (Finite 1) (Some ''a'') [])"
    "cJSON_GetObjectItem
       (Some (Node cJSON_Object None 0 (Finite 0) None
                [Node cJSON_Number None 1 (Finite 1) (Some ''a'') [],
                 Node cJSON_Number None 2 (Finite 2) (Some ''a'') []])) (Some ''a'') =
       Some (Node cJSON_Number None 1 (Finite 1) (Some ''a'') [])"
    "cJSON_GetObjectItem
       (Some (Node cJSON_Object None 0 (Finite 0) None
                [Node cJSON_Number None 1 (Finite 1) (Some ''a'') [],
                 Node cJSON_Number None 2 (Finite 2) (Some ''a'') []])) (Some ''A'') =
       Some (Node cJSON_Number None 1 (Finite 1) (Some ''a'') [])"
    "cJSON_GetObjectItemCaseSensitive
       (Some (Node cJSON_Object None 0 (Finite 0) None
                [Node cJSON_Number None 1 (Finite 1) (Some ''a'') [],
                 Node cJSON_Number None 2 (Finite 2) (Some ''a'') []])) (Some ''A'') = None"
    "cJSON_GetObjectItem
       (Some (Node cJSON_Object None 0 (Finite 0) None
                [Node cJSON_Number None 1 (Finite 1) (Some ''a'') [],
                 Node cJSON_Number None 2 (Finite 2) (Some ''a'') []])) (Some ''b'') = None"
    by (simp_all add: cJSON_GetObjectItemCaseSensitive_def cJSON_GetObjectItem_def
        strcmp_def strcasecmp_def lower tolower_upper_A)
  show ?thesis
    using general example parse_duplicate_keys [of None] by simp
qed

section \<open>Malformed input\<close>

lemma parse_malformed_examples:
  "cJSON_Parse (Some (''{'' @ [dquote] @ ''a'' @ [dquote] @ '':}'')) e =
     Returns (None, Some ''Invalid value'')"
  "cJSON_Parse (Some ''[1,2,'') e = Returns (None, Some ''Unexpected end'')"
  "cJSON_Parse (Some ''[1,2'') e = Returns (None, Some ''Expected ]'')"
  "cJSON_Parse (Some (''{'' @ [dquote] @ ''a'' @ [dquote] @ '' 1}'')) e =
     Returns (None, Some ''Expected :'')"
  "cJSON_Parse (Some ''nul'') e = Returns (None, Some ''Invalid value'')"
  "cJSON_Parse (Some (''['' @ [dquote] @ ''ab'')) e =
     Returns (None, Some ''Unterminated string'')"
  by (simp_all add: parse_eval strtod_eval double_eval set_fields cJSON_types)

text \<open>
  C5 says that every text with an unterminated string makes \<open>cJSON_Parse\<close> return null.
  On the text \<^verbatim>\<open>"abc\\<close> (a quote, three letters and a backslash) the first loop of
  \<^verbatim>\<open>parse_string\<close> steps over the byte after the backslash, which is the terminating
  NUL, and goes on reading behind the end of the text: the call has no defined result
  instead of the failure. The six texts of \<open>parse_malformed_examples\<close>, among them the two
  the claim names, do fail.
\<close>

theorem parse_unterminated_escape_undefined:
  "cJSON_Parse (Some (dquote # ''abc'' @ [bslash])) None = Undefined"
  by (simp add: parse_eval set_fields cJSON_types)

section \<open>Reads beyond the given length\<close>

text \<open>
  C4 says that the result of \<open>cJSON_ParseWithLength\<close> depends on the first \<open>length\<close>
  bytes only. The four calls below pass the length 3 with buffers that agree on their
  first three bytes (a quote and two letters), and the length 1 with buffers that start
  with the digit 1: the results differ with the bytes behind the length, because
  \<^verbatim>\<open>parse_string\<close> and \<^verbatim>\<open>strtod\<close> read until a quote, a NUL or a byte that is no part
  of a number.
\<close>

theorem parse_with_length_reads_past_length:
  "cJSON_ParseWithLength (Some (dquote # ''ab'' @ [dquote, NUL])) 3 None =
     Returns (Some (Node cJSON_String (Some ''ab'') 0 (Finite 0) None []), None) \<and>
   cJSON_ParseWithLength (Some (dquote # ''ab'' @ [NUL, NUL])) 3 None =
     Returns (None, Some ''Unterminated string'') \<and>
   cJSON_ParseWithLength (Some (''123'' @ [NUL])) 1 None =
     Returns (Some (Node cJSON_Number None 123 (Finite 123) None []), None) \<and>
   cJSON_ParseWithLength (Some (''1'' @ [NUL, NUL, NUL])) 1 None =
     Returns (Some (Node cJSON_Number None 1 (Finite 1) None []), None)"
  by (simp add: parse_eval strtod_eval double_eval set_fields cJSON_types)

section \<open>Allocations outside the hook registry\<close>

text \<open>
  C2 says that every allocation and every free goes through the installed hooks.
  \<open>cJSON_CreateString\<close> of a non-null string takes the node from the hooks and the copy of
  the string from the platform allocator (\<^verbatim>\<open>strdup\<close>); \<open>cJSON_Delete\<close> of that node then
  hands both blocks to the free function of the hooks. \<open>cJSON_AddItemToObject\<close> copies the
  key the same way.
\<close>

theorem create_string_bypasses_hooks:
  "cJSON_CreateString_events (Some ''a'') =
     [Allocates Hooks NodeBlock, Allocates Platform ValueStringBlock] \<and>
   cJSON_Delete_events [cJSON_CreateString (Some ''a'')] =
     [Releases Hooks ValueStringBlock, Releases Hooks NodeBlock] \<and>
   add_item_to_object_events (Some cJSON_CreateObject) (Some ''k'') (Some cJSON_CreateNull) False =
     [Allocates Platform KeyStringBlock]"
  by (simp add: cJSON_CreateString_events_def cJSON_New_Item_events_def strdup_events_def
      add_item_to_object_events_def create_eval set_fields cJSON_types)

section \<open>Unicode escapes\<close>

text \<open>
  C6: in a string literal made of plain bytes, two-byte escapes and \<^verbatim>\<open>\u\<close> escapes with
  four hexadecimal digits, the parser stores one byte per token, and for every \<^verbatim>\<open>\u\<close>
  escape that byte is the placeholder \<^verbatim>\<open>?\<close>: the four digits are skipped and never
  decoded. The text \<^verbatim>\<open>"A"\<close> parses to the one-character string \<^verbatim>\<open>?\<close>.
\<close>

theorem unicode_escape_placeholder:
  assumes "list_all tok_ok ts"
  shows "cJSON_Parse (Some (dquote # concat (map tok_text ts) @ [dquote])) e =
           Returns (Some (Node cJSON_String (Some (map tok_char ts)) 0 (Finite 0) None []), None)"
proof -
  define s where "s = dquote # concat (map tok_text ts) @ [dquote]"
  define b where "b = \<lparr>content = s @ [NUL], blength = length s, offset = 0, global_error = None\<rparr>"
  have nonul: "NUL \<notin> set s"
    using toks_text_not_NUL [OF assms] by (simp add: s_def)
  have len: "strlen (s @ [NUL]) = length s"
    using nonul by (rule strlen_terminated)
  have ne: "s \<noteq> []"
    by (simp add: s_def)
  have at: "buffer_at_offset b = dquote # concat (map tok_text ts) @ dquote # [NUL]"
    by (simp add: buffer_at_offset_def b_def s_def)
  have "offset b < blength b"
    using ne by (simp add: b_def)
  with at have "parse_value (Suc (2 * length s)) cJSON_New_Item b = parse_string cJSON_New_Item b"
    by (rule parse_value_string)
  also have "\<dots> = Returns (Some (set_valuestring (Some (map tok_char ts))
                                   (set_type cJSON_String cJSON_New_Item)),
                            advance (length (concat (map tok_text ts)) + 2) b)"
    using at assms by (rule parse_string_toks)
  finally have run: "parse_value (parse_fuel (length s)) cJSON_New_Item b =
      Returns (Some (Node cJSON_String (Some (map tok_char ts)) 0 (Finite 0) None []),
               advance (length (concat (map tok_text ts)) + 2) b)"
    by (simp add: parse_fuel_def set_fields cJSON_types)
  have "cJSON_Parse (Some s) e =
          Returns (Some (Node cJSON_String (Some (map tok_char ts)) 0 (Finite 0) None []), None)"
    unfolding cJSON_Parse_def cJSON_ParseWithLength_def
    by (simp add: len ne run [unfolded b_def])
  then show ?thesis
    by (simp add: s_def)
qed

theorem unicode_escape_placeholder_witness:
  "list_all tok_ok [UEsc CHR ''0'' CHR ''0'' CHR ''4'' CHR ''1''] \<and>
   cJSON_Parse (Some ([dquote, bslash] @ ''u0041'' @ [dquote])) None =
     Returns (Some (Node cJSON_String (Some ''?'') 0 (Finite 0) None []), None) \<and>
   list_all tok_ok [Plain CHR ''a'', UEsc CHR ''0'' CHR ''0'' CHR ''e'' CHR ''9'', Esc CHR ''n''] \<and>
   cJSON_Parse (Some ([dquote] @ ''a'' @ [bslash] @ ''u00e9'' @ [bslash] @ ''n'' @ [dquote])) None =
     Returns (Some (Node cJSON_String (Some (''a?'' @ [CHR 0x0A])) 0 (Finite 0) None []), None)"
  using unicode_escape_placeholder [of "[UEsc CHR ''0'' CHR ''0'' CHR ''4'' CHR ''1'']" None]
    unicode_escape_placeholder
      [of "[Plain CHR ''a'', UEsc CHR ''0'' CHR ''0'' CHR ''e'' CHR ''9'', Esc CHR ''n'']" None]
  by (simp add: isxdigit_def isdigit_def plain_char_def unescape_char_def)

section \<open>The error slot after a successful parse\<close>

text \<open>
  C9: \<open>cJSON_ParseWithLength\<close> clears the error slot before it parses, whatever the slot
  held, and every path that stores an error description returns failure; so a call that
  returns a tree leaves the slot null, and so does \<open>cJSON_Parse\<close>.
\<close>

theorem parse_success_clears_error:
  "(cJSON_ParseWithLength value len err = Returns (Some tree, err') \<longrightarrow>
      cJSON_GetErrorPtr err' = None) \<and>
   (cJSON_Parse text err = Returns (Some tree, err') \<longrightarrow> cJSON_GetErrorPtr err' = None)"
proof -
  have with_length: "err' = None"
    if "cJSON_ParseWithLength value len err = Returns (Some tree, err')"
    for "value" len err tree err'
  proof -
    from that obtain bytes b where
      run: "parse_value (parse_fuel len) cJSON_New_Item
              \<lparr>content = bytes, blength = len, offset = 0, global_error = None\<rparr> =
            Returns (Some tree, b)"
      and err: "err' = global_error b"
      by (auto simp add: cJSON_ParseWithLength_def
          split: option.splits if_splits outcome.splits prod.splits)
    have "keeps_error (parse_value (parse_fuel len) cJSON_New_Item)"
      using parse_keeps_error [of "parse_fuel len"] by simp
    from keeps_errorD [OF this run] err show ?thesis
      by simp
  qed
  have "err' = None" if "cJSON_Parse text err = Returns (Some tree, err')"
    using that with_length by (auto simp add: cJSON_Parse_def split: option.splits)
  with with_length show ?thesis
    by (auto simp add: cJSON_GetErrorPtr_def)
qed

theorem parse_success_clears_error_witness:
  "cJSON_Parse (Some ''[1,2,'') None = Returns (None, Some ''Unexpected end'') \<and>
   cJSON_Parse (Some ''[1,2]'') (Some ''Unexpected end'') =
     Returns (Some (Node cJSON_Array None 0 (Finite 0) None
                      [Node cJSON_Number None 1 (Finite 1) None [],
                       Node cJSON_Number None 2 (Finite 2) None []]), None) \<and>
   cJSON_GetErrorPtr None = None"
  using parse_success_clears_error
    [of "Some (''[1,2]'' @ [NUL])" 5 "Some ''Unexpected end''"
        "Node cJSON_Array None 0 (Finite 0) None
           [Node cJSON_Number None 1 (Finite 1) None [],
            Node cJSON_Number None 2 (Finite 2) None []]" None "Some ''[1,2]''"]
  by (simp add: parse_eval strtod_eval double_eval set_fields cJSON_types cJSON_GetErrorPtr_def)


end
